theory Spec2Isabelle
  imports Complex_Main "HOL-Library.Sublist" "HOL-Library.Multiset"
begin

section \<open>JavaScript values used by the pipeline\<close>

text \<open>
  The daily-brief route (\<^verbatim>\<open>src/app/api/cron/daily-brief/route.ts\<close>) is embedded function by
  function.  Values thrown by the runtime or by an external collaborator (feed parser,
  judge, mail transport) are values of \<open>js_error\<close>; a function that can throw
  returns \<open>js_error + 'a\<close>.
\<close>

datatype js_error = TypeError | SyntaxError | Rejected string

text \<open>
  A \<^verbatim>\<open>Date\<close> is its time value in milliseconds, or the invalid date (time value NaN) that
  \<^verbatim>\<open>new Date(s)\<close> yields for a string it cannot read.  The range limit of time values
  is not modelled.
\<close>

datatype js_date = InvalidDate | Time int

text \<open>\<^verbatim>\<open>a > b\<close> on dates compares the time values; every comparison with NaN is false.\<close>

fun dateGt :: "js_date \<Rightarrow> js_date \<Rightarrow> bool" where
  "dateGt (Time a) (Time b) = (b < a)"
| "dateGt _ _ = False"

text \<open>\<^verbatim>\<open>x || d\<close> for an optional string \<open>x\<close>: undefined and the empty string are falsy.\<close>

definition js_or :: "string option \<Rightarrow> string \<Rightarrow> string" where
  "js_or x d = (case x of None \<Rightarrow> d | Some s \<Rightarrow> if s = [] then d else s)"

text \<open>\<^verbatim>\<open>xs.indexOf(x)\<close>: the first index of \<open>x\<close>, or \<open>-1\<close>.\<close>

fun indexOf :: "'a list \<Rightarrow> 'a \<Rightarrow> int" where
  "indexOf [] x = -1"
| "indexOf (y # ys) x =
     (if y = x then 0 else (let i = indexOf ys x in if i < 0 then -1 else i + 1))"

section \<open>Configuration and data model\<close>

record config =
  maxArticlesPerFeed :: nat
  hoursLookback :: nat
  minRelevanceScore :: rat
  maxArticlesInBrief :: nat
  recipientEmail :: string

text \<open>
  \<^verbatim>\<open>CONFIG\<close> of route.ts; its argument is the environment variable
  \<^verbatim>\<open>RECIPIENT_EMAIL\<close>.
\<close>

definition CONFIG :: "string option \<Rightarrow> config" where
  "CONFIG env_RECIPIENT_EMAIL =
     \<lparr> maxArticlesPerFeed = 3, hoursLookback = 48, minRelevanceScore = 5,
       maxArticlesInBrief = 15, recipientEmail = js_or env_RECIPIENT_EMAIL [] \<rparr>"

text \<open>
  An item as the feed parser returns it: every field may be absent.  \<open>item_pubDate\<close> is
  \<open>None\<close> when \<^verbatim>\<open>item.pubDate\<close> is falsy (absent or empty) and otherwise holds
  \<^verbatim>\<open>new Date(item.pubDate)\<close>.
\<close>

record feed_item =
  item_title :: "string option"
  item_link :: "string option"
  item_pubDate :: "js_date option"
  item_content :: "string option"
  item_contentSnippet :: "string option"
  item_summary :: "string option"

record Article =
  title :: string
  link :: string
  pubDate :: js_date
  content :: string

datatype log_entry =
    LogFeedOk int nat
  | LogFeedError int js_error
  | LogTotalUnique nat
  | LogBatch nat nat nat
  | LogBatchError js_error
  | LogStarting
  | LogNoArticles
  | LogSelected nat
  | LogNoRelevant
  | LogEmailSent
  | LogProcessError js_error

section \<open>fetchRecentArticles\<close>

text \<open>
  \<open>now\<close> is the reading of the clock; the model takes the readings of one run
  (\<^verbatim>\<open>Date.now()\<close> and each \<^verbatim>\<open>new Date()\<close>) to be the same instant.
\<close>

definition cutoffDate :: "config \<Rightarrow> int \<Rightarrow> js_date" where
  "cutoffDate cfg now = Time (now - int (hoursLookback cfg) * 60 * 60 * 1000)"

text \<open>\<^verbatim>\<open>item.pubDate ? new Date(item.pubDate) : new Date()\<close>\<close>

definition itemDate :: "int \<Rightarrow> feed_item \<Rightarrow> js_date" where
  "itemDate now item = (case item_pubDate item of Some d \<Rightarrow> d | None \<Rightarrow> Time now)"

text \<open>The callback of the first \<^verbatim>\<open>filter\<close>: \<^verbatim>\<open>pubDate > cutoffDate\<close>.\<close>

definition isRecent :: "config \<Rightarrow> int \<Rightarrow> feed_item \<Rightarrow> bool" where
  "isRecent cfg now item = dateGt (itemDate now item) (cutoffDate cfg now)"

text \<open>The callback of \<^verbatim>\<open>map\<close>: the normalised Article of an item.\<close>

definition toArticle :: "int \<Rightarrow> feed_item \<Rightarrow> Article" where
  "toArticle now item =
     \<lparr> title = js_or (item_title item) ''Untitled'',
       link = js_or (item_link item) [],
       pubDate = itemDate now item,
       content = js_or (item_content item)
                   (js_or (item_contentSnippet item) (js_or (item_summary item) [])) \<rparr>"

text \<open>
  \<^verbatim>\<open>feed.items.filter(...).slice(0, CONFIG.maxArticlesPerFeed).map(...)\<close>: the window
  filter, then the truncation, then the normalisation.
\<close>

definition windowSliceMap :: "config \<Rightarrow> int \<Rightarrow> feed_item list \<Rightarrow> Article list" where
  "windowSliceMap cfg now items =
     map (toArticle now) (take (maxArticlesPerFeed cfg) (filter (isRecent cfg now) items))"

text \<open>
  The last \<^verbatim>\<open>filter\<close>, whose callback reads and updates the set \<^verbatim>\<open>seenLinks\<close>; the
  set is passed in and returned.
\<close>

fun dedupFilter :: "string set \<Rightarrow> Article list \<Rightarrow> Article list \<times> string set" where
  "dedupFilter seenLinks [] = ([], seenLinks)"
| "dedupFilter seenLinks (a # as) =
     (if link a \<in> seenLinks then dedupFilter seenLinks as
      else (let (kept, seen') = dedupFilter (insert (link a) seenLinks) as
            in (a # kept, seen')))"

record fetch_state =
  allArticles :: "Article list"
  seenLinks :: "string set"
  fetch_log :: "log_entry list"

text \<open>
  One iteration of the loop over \<^verbatim>\<open>RSS_FEEDS\<close>.  \<open>parseURL\<close> is the feed parser: the
  items of the feed, or what it throws.
\<close>

definition fetchFeed ::
  "config \<Rightarrow> int \<Rightarrow> (string \<Rightarrow> js_error + feed_item list) \<Rightarrow> string list \<Rightarrow> string \<Rightarrow>
   fetch_state \<Rightarrow> fetch_state" where
  "fetchFeed cfg now parseURL RSS_FEEDS feedUrl st =
     (case parseURL feedUrl of
        Inl error \<Rightarrow>
          st\<lparr> fetch_log := fetch_log st @ [LogFeedError (indexOf RSS_FEEDS feedUrl + 1) error] \<rparr>
      | Inr items \<Rightarrow>
          (let (recentItems, seen') = dedupFilter (seenLinks st) (windowSliceMap cfg now items)
           in \<lparr> allArticles = allArticles st @ recentItems,
                seenLinks = seen',
                fetch_log = fetch_log st @
                  (if length recentItems > 0
                   then [LogFeedOk (indexOf RSS_FEEDS feedUrl + 1) (length recentItems)]
                   else []) \<rparr>))"

fun fetchFeeds ::
  "config \<Rightarrow> int \<Rightarrow> (string \<Rightarrow> js_error + feed_item list) \<Rightarrow> string list \<Rightarrow> string list \<Rightarrow>
   fetch_state \<Rightarrow> fetch_state" where
  "fetchFeeds cfg now parseURL RSS_FEEDS [] st = st"
| "fetchFeeds cfg now parseURL RSS_FEEDS (feedUrl # rest) st =
     fetchFeeds cfg now parseURL RSS_FEEDS rest (fetchFeed cfg now parseURL RSS_FEEDS feedUrl st)"

definition fetchRecentArticles ::
  "config \<Rightarrow> int \<Rightarrow> (string \<Rightarrow> js_error + feed_item list) \<Rightarrow> string list \<Rightarrow>
   Article list \<times> log_entry list" where
  "fetchRecentArticles cfg now parseURL RSS_FEEDS =
     (let st = fetchFeeds cfg now parseURL RSS_FEEDS RSS_FEEDS
                 \<lparr> allArticles = [], seenLinks = {}, fetch_log = [] \<rparr>
      in (allArticles st, fetch_log st @ [LogTotalUnique (length (allArticles st))]))"

section \<open>analyzeWithClaude\<close>

text \<open>
  A record of the judge's array as the code reads it: the fields of the interface
  \<^verbatim>\<open>AnalyzedArticle\<close> and \<^verbatim>\<open>skip\<close> of the filter callback's parameter type.  Nothing
  checks the parsed value against the interface, so every field is optional: \<open>None\<close> is
  a property that is absent (\<^verbatim>\<open>undefined\<close>); a property that is present has its declared
  type.  A number is its exact value, a rational: \<^verbatim>\<open>>=\<close> and the sign of a difference
  are exact on floating-point numbers; the infinities that an overlong literal parses to
  are not modelled.  The title is \<open>a_title\<close>, since \<open>title\<close> is the field of
  \<open>Article\<close>.
\<close>

record AnalyzedArticle =
  score :: "rat option"
  skip :: "bool option"
  a_title :: "string option"
  summary :: "string list option"
  whyMatters :: "string option"
  tags :: "string list option"
  url :: "string option"
  opportunity :: "string option"

text \<open>\<^verbatim>\<open>message.content\<close>: the blocks of the judge's reply.\<close>

datatype content_block = TextBlock string | OtherBlock

definition batchSize :: nat where
  "batchSize = 5"

text \<open>
  \<^verbatim>\<open>message.content[0].type === 'text' ? message.content[0].text : ''\<close>; reading
  \<^verbatim>\<open>type\<close> of the first block of an empty reply throws.
\<close>

definition responseText :: "content_block list \<Rightarrow> js_error + string" where
  "responseText blocks =
     (case blocks of
        [] \<Rightarrow> Inl TypeError
      | TextBlock text # _ \<Rightarrow> Inr text
      | OtherBlock # _ \<Rightarrow> Inr [])"

text \<open>
  \<^verbatim>\<open>responseText.match(/\[[\s\S]*\]/)\<close>: the match starts at the first \<open>[\<close> of the text
  and, the star being greedy over every character, ends at the last \<open>]\<close> after it; there
  is no match when no \<open>]\<close> follows the first \<open>[\<close>.
\<close>

definition jsonMatch :: "string \<Rightarrow> string option" where
  "jsonMatch text =
     (case dropWhile (\<lambda>c. c \<noteq> CHR ''['') text of
        [] \<Rightarrow> None
      | c # rest \<Rightarrow>
          (case rev (dropWhile (\<lambda>c. c \<noteq> CHR '']'') (rev rest)) of
             [] \<Rightarrow> None
           | body \<Rightarrow> Some (c # body)))"

text \<open>\<^verbatim>\<open>!r.skip\<close> and \<^verbatim>\<open>r.score >= min\<close>; \<^verbatim>\<open>undefined >= min\<close> is false.\<close>

definition js_truthy :: "bool option \<Rightarrow> bool" where
  "js_truthy b = (case b of None \<Rightarrow> False | Some v \<Rightarrow> v)"

definition js_ge :: "rat option \<Rightarrow> rat \<Rightarrow> bool" where
  "js_ge x m = (case x of None \<Rightarrow> False | Some v \<Rightarrow> m \<le> v)"

text \<open>The callback of \<^verbatim>\<open>results.filter\<close>.\<close>

definition isRelevant :: "config \<Rightarrow> AnalyzedArticle \<Rightarrow> bool" where
  "isRelevant cfg r = (\<not> js_truthy (skip r) \<and> js_ge (score r) (minRelevanceScore cfg))"

text \<open>
  \<^verbatim>\<open>results.filter(...)\<close> over the parsed array.  An element of the array is \<open>None\<close> when
  it is \<^verbatim>\<open>null\<close>, and reading \<^verbatim>\<open>skip\<close> of \<^verbatim>\<open>null\<close> throws; an element that is a
  number, a string, a boolean or an array has neither property and is the record with
  every field \<open>None\<close>.
\<close>

fun filterRelevant ::
  "config \<Rightarrow> AnalyzedArticle option list \<Rightarrow> js_error + AnalyzedArticle list" where
  "filterRelevant cfg [] = Inr []"
| "filterRelevant cfg (None # rs) = Inl TypeError"
| "filterRelevant cfg (Some r # rs) =
     (case filterRelevant cfg rs of
        Inl e \<Rightarrow> Inl e
      | Inr kept \<Rightarrow> Inr (if isRelevant cfg r then r # kept else kept))"

text \<open>
  The body of the \<^verbatim>\<open>try\<close> for one batch, with its \<^verbatim>\<open>catch\<close>: what is pushed onto
  \<^verbatim>\<open>analyzed\<close> and what is logged.  \<open>reply\<close> is the outcome of
  \<^verbatim>\<open>anthropic.messages.create\<close>, \<open>JSON_parse\<close> is \<^verbatim>\<open>JSON.parse\<close> read at the type
  above, \<open>k\<close> is \<^verbatim>\<open>Math.floor(i / batchSize) + 1\<close> and \<open>n\<close> is \<^verbatim>\<open>batch.length\<close>.
\<close>

definition analyzeBatch ::
  "config \<Rightarrow> (string \<Rightarrow> js_error + AnalyzedArticle option list) \<Rightarrow>
   js_error + content_block list \<Rightarrow> nat \<Rightarrow> nat \<Rightarrow> AnalyzedArticle list \<times> log_entry list" where
  "analyzeBatch cfg JSON_parse reply k n =
     (case reply of
        Inl error \<Rightarrow> ([], [LogBatchError error])
      | Inr blocks \<Rightarrow>
          (case responseText blocks of
             Inl error \<Rightarrow> ([], [LogBatchError error])
           | Inr text \<Rightarrow>
               (case jsonMatch text of
                  None \<Rightarrow> ([], [])
                | Some m \<Rightarrow>
                    (case JSON_parse m of
                       Inl error \<Rightarrow> ([], [LogBatchError error])
                     | Inr results \<Rightarrow>
                         (case filterRelevant cfg results of
                            Inl error \<Rightarrow> ([], [LogBatchError error])
                          | Inr relevant \<Rightarrow> (relevant, [LogBatch k (length relevant) n]))))))"

text \<open>
  The loop \<^verbatim>\<open>for (let i = 0; i < articles.length; i += batchSize)\<close>.  \<open>create k batch\<close>
  is the judge's outcome for the \<open>k\<close>-th request of the run, whose prompt is a fixed text
  around the titles, links and contents of \<open>batch\<close>.  The pause between two batches
  changes nothing that is returned and is left out.
\<close>

function analyzeLoop ::
  "config \<Rightarrow> (nat \<Rightarrow> Article list \<Rightarrow> js_error + content_block list) \<Rightarrow>
   (string \<Rightarrow> js_error + AnalyzedArticle option list) \<Rightarrow> Article list \<Rightarrow> nat \<Rightarrow>
   AnalyzedArticle list \<times> log_entry list \<Rightarrow> AnalyzedArticle list \<times> log_entry list" where
  "analyzeLoop cfg create JSON_parse articles i st =
     (if i < length articles then
        (let batch = take batchSize (drop i articles);
             (relevant, logged) =
               analyzeBatch cfg JSON_parse (create (i div batchSize) batch)
                 (i div batchSize + 1) (length batch)
         in analyzeLoop cfg create JSON_parse articles (i + batchSize)
              (fst st @ relevant, snd st @ logged))
      else st)"
  by pat_completeness auto
termination
  by (relation "measure (\<lambda>(cfg, create, JSON_parse, articles, i, st). length articles - i)")
     (auto simp: batchSize_def)

text \<open>
  The callback of \<^verbatim>\<open>sort\<close>, \<^verbatim>\<open>b.score - a.score\<close>; \<open>None\<close> is NaN, the difference
  when a score is absent.
\<close>

definition compareFn :: "AnalyzedArticle \<Rightarrow> AnalyzedArticle \<Rightarrow> rat option" where
  "compareFn a b =
     (case (score b, score a) of (Some y, Some x) \<Rightarrow> Some (y - x) | _ \<Rightarrow> None)"

text \<open>
  \<^verbatim>\<open>Array.prototype.sort\<close> is stable, and reads a NaN from its callback as \<open>+0\<close>.  For a
  callback that is a consistent ordering the result is determined by that; it is computed
  here by inserting from the right, an element going in front of the first element it
  does not have to follow.
\<close>

definition cmpValue :: "rat option \<Rightarrow> rat" where
  "cmpValue v = (case v of None \<Rightarrow> 0 | Some n \<Rightarrow> n)"

fun insertBy :: "('a \<Rightarrow> 'a \<Rightarrow> rat option) \<Rightarrow> 'a \<Rightarrow> 'a list \<Rightarrow> 'a list" where
  "insertBy cmp x [] = [x]"
| "insertBy cmp x (y # ys) =
     (if cmpValue (cmp x y) \<le> 0 then x # y # ys else y # insertBy cmp x ys)"

definition js_sort :: "('a \<Rightarrow> 'a \<Rightarrow> rat option) \<Rightarrow> 'a list \<Rightarrow> 'a list" where
  "js_sort cmp xs = foldr (insertBy cmp) xs []"

text \<open>\<^verbatim>\<open>analyzed.sort((a, b) => b.score - a.score).slice(0, CONFIG.maxArticlesInBrief)\<close>\<close>

definition sortAndSlice :: "config \<Rightarrow> AnalyzedArticle list \<Rightarrow> AnalyzedArticle list" where
  "sortAndSlice cfg analyzed = take (maxArticlesInBrief cfg) (js_sort compareFn analyzed)"

definition analyzeWithClaude ::
  "config \<Rightarrow> (nat \<Rightarrow> Article list \<Rightarrow> js_error + content_block list) \<Rightarrow>
   (string \<Rightarrow> js_error + AnalyzedArticle option list) \<Rightarrow> Article list \<Rightarrow>
   AnalyzedArticle list \<times> log_entry list" where
  "analyzeWithClaude cfg create JSON_parse articles =
     (let st = analyzeLoop cfg create JSON_parse articles 0 ([], [])
      in (sortAndSlice cfg (fst st), snd st))"

section \<open>formatEmailBrief\<close>

text \<open>
  The document is the sequence of its parts; the fixed markup around them is left out.
  \<open>str\<close> is the interpolation \<^verbatim>\<open>${x}\<close> of an optional string, which prints an
  absent one as \<^verbatim>\<open>undefined\<close>.
\<close>

definition str :: "string option \<Rightarrow> string" where
  "str x = (case x of None \<Rightarrow> ''undefined'' | Some s \<Rightarrow> s)"

text \<open>The truth value of an optional string: absent and empty are falsy.\<close>

definition truthyStr :: "string option \<Rightarrow> bool" where
  "truthyStr x = (case x of None \<Rightarrow> False | Some s \<Rightarrow> s \<noteq> [])"

text \<open>\<^verbatim>\<open>xs.join(sep)\<close>\<close>

fun js_join :: "string \<Rightarrow> string list \<Rightarrow> string" where
  "js_join sep [] = []"
| "js_join sep [x] = x"
| "js_join sep (x # y # ys) = x @ sep @ js_join sep (y # ys)"

datatype section_name = RegulatorySignals | MarketSignals | JobsSignals | MarketJobsSignals

text \<open>
  \<open>Header date count sources\<close> is the heading with the line of counts;
  \<open>SectionList name links\<close> a heading with its list of \<open>(url, title)\<close> links;
  \<open>ArticleEntry number title score tags bullets whyMatters opportunity url\<close> one entry of
  the full list, \<open>tags\<close> being the joined tags and \<open>opportunity\<close> the optional callout.
\<close>

datatype html_block =
    Header string nat nat
  | HeaderPlain string nat
  | SectionList section_name "(string \<times> string) list"
  | OpportunityList "string list"
  | SelectedArticles
  | ArticleEntry nat string "rat option" string "string list" string "string option" string
  | Footer nat

text \<open>
  \<^verbatim>\<open>a.tags.includes(t)\<close>: calling \<^verbatim>\<open>includes\<close> on an absent \<^verbatim>\<open>tags\<close> throws a
  TypeError.
\<close>

definition tagsInclude :: "string \<Rightarrow> AnalyzedArticle \<Rightarrow> js_error + bool" where
  "tagsInclude t a = (case tags a of None \<Rightarrow> Inl TypeError | Some ts \<Rightarrow> Inr (t \<in> set ts))"

text \<open>\<^verbatim>\<open>xs.filter(p)\<close> and \<^verbatim>\<open>xs.forEach(f)\<close> for a callback that can throw.\<close>

fun filterThrowing :: "('a \<Rightarrow> js_error + bool) \<Rightarrow> 'a list \<Rightarrow> js_error + 'a list" where
  "filterThrowing p [] = Inr []"
| "filterThrowing p (x # xs) =
     (case p x of
        Inl e \<Rightarrow> Inl e
      | Inr b \<Rightarrow>
          (case filterThrowing p xs of
             Inl e \<Rightarrow> Inl e
           | Inr ys \<Rightarrow> Inr (if b then x # ys else ys)))"

fun forEachThrowing :: "('a \<Rightarrow> js_error + 'b) \<Rightarrow> 'a list \<Rightarrow> js_error + 'b list" where
  "forEachThrowing f [] = Inr []"
| "forEachThrowing f (x # xs) =
     (case f x of
        Inl e \<Rightarrow> Inl e
      | Inr y \<Rightarrow> (case forEachThrowing f xs of Inl e \<Rightarrow> Inl e | Inr ys \<Rightarrow> Inr (y # ys)))"

text \<open>\<^verbatim>\<open><li><a href="${a.url}">${a.title}</a></li>\<close>\<close>

definition sectionLink :: "AnalyzedArticle \<Rightarrow> string \<times> string" where
  "sectionLink a = (str (url a), str (a_title a))"

text \<open>
  The callback of \<^verbatim>\<open>articles.forEach((article, idx) => ...)\<close>: \<^verbatim>\<open>article.tags.join\<close>
  and \<^verbatim>\<open>article.summary.map\<close> throw on an absent array.
\<close>

definition articleEntry :: "nat \<times> AnalyzedArticle \<Rightarrow> js_error + html_block" where
  "articleEntry p =
     (case p of (idx, article) \<Rightarrow>
        (case tags article of
           None \<Rightarrow> Inl TypeError
         | Some ts \<Rightarrow>
             (case summary article of
                None \<Rightarrow> Inl TypeError
              | Some bullets \<Rightarrow>
                  Inr (ArticleEntry (idx + 1) (str (a_title article)) (score article)
                         (js_join '', '' ts) bullets (str (whyMatters article))
                         (if truthyStr (opportunity article) then opportunity article else None)
                         (str (url article))))))"

text \<open>
  \<open>formatEmailBrief\<close> of route.ts; \<open>date\<close> is the formatted current date and \<open>sources\<close>
  is \<^verbatim>\<open>RSS_FEEDS.length\<close>.
\<close>

definition formatEmailBrief ::
  "string \<Rightarrow> nat \<Rightarrow> AnalyzedArticle list \<Rightarrow> js_error + html_block list" where
  "formatEmailBrief date sources articles =
     (case filterThrowing (tagsInclude ''Regulatory'') articles of
        Inl e \<Rightarrow> Inl e
      | Inr regulatory \<Rightarrow>
     (case filterThrowing (tagsInclude ''Market'') articles of
        Inl e \<Rightarrow> Inl e
      | Inr market \<Rightarrow>
     (case filterThrowing (tagsInclude ''Jobs'') articles of
        Inl e \<Rightarrow> Inl e
      | Inr jobs \<Rightarrow>
     (let opportunities = filter (\<lambda>a. truthyStr (opportunity a)) articles
      in (case forEachThrowing articleEntry (enumerate 0 articles) of
            Inl e \<Rightarrow> Inl e
          | Inr entries \<Rightarrow>
              Inr ([Header date (length articles) sources]
                   @ (if length regulatory > 0
                      then [SectionList RegulatorySignals (map sectionLink regulatory)] else [])
                   @ (if length market > 0
                      then [SectionList MarketSignals (map sectionLink market)] else [])
                   @ (if length jobs > 0
                      then [SectionList JobsSignals (map sectionLink jobs)] else [])
                   @ (if length opportunities > 0
                      then [OpportunityList (map (\<lambda>a. str (opportunity a)) opportunities)]
                      else [])
                   @ [SelectedArticles] @ entries @ [Footer sources]))))))"

text \<open>
  \<open>formatEmailBrief\<close> of the second source file (part\_000): one section for the articles
  tagged Market or Jobs, a heading without the number of sources, no footer.
\<close>

definition marketOrJobs :: "AnalyzedArticle \<Rightarrow> js_error + bool" where
  "marketOrJobs a =
     (case tagsInclude ''Market'' a of
        Inl e \<Rightarrow> Inl e
      | Inr b \<Rightarrow> if b then Inr True else tagsInclude ''Jobs'' a)"

definition formatEmailBrief_part000 ::
  "string \<Rightarrow> AnalyzedArticle list \<Rightarrow> js_error + html_block list" where
  "formatEmailBrief_part000 date articles =
     (case filterThrowing (tagsInclude ''Regulatory'') articles of
        Inl e \<Rightarrow> Inl e
      | Inr regulatory \<Rightarrow>
     (case filterThrowing marketOrJobs articles of
        Inl e \<Rightarrow> Inl e
      | Inr market \<Rightarrow>
     (let opportunities = filter (\<lambda>a. truthyStr (opportunity a)) articles
      in (case forEachThrowing articleEntry (enumerate 0 articles) of
            Inl e \<Rightarrow> Inl e
          | Inr entries \<Rightarrow>
              Inr ([HeaderPlain date (length articles)]
                   @ (if length regulatory > 0
                      then [SectionList RegulatorySignals (map sectionLink regulatory)] else [])
                   @ (if length market > 0
                      then [SectionList MarketJobsSignals (map sectionLink market)] else [])
                   @ (if length opportunities > 0
                      then [OpportunityList (map (\<lambda>a. str (opportunity a)) opportunities)]
                      else [])
                   @ [SelectedArticles] @ entries)))))"

section \<open>processAndSendBrief\<close>

text \<open>
  A request to the mail transport: recipient, the number of items and the short date of
  the subject line, and the document.
\<close>

record mail =
  mail_to :: string
  mail_items :: nat
  mail_date :: string
  mail_html :: "html_block list"

text \<open>
  What a run leaves behind: the requests made to \<^verbatim>\<open>resend.emails.send\<close> and the console
  output.  \<open>send\<close> is the mail transport: \<open>None\<close> when it resolves, otherwise what it
  throws.
\<close>

record run_outcome =
  mailRequests :: "mail list"
  run_log :: "log_entry list"

definition processAndSendBrief ::
  "config \<Rightarrow> int \<Rightarrow> string \<Rightarrow> string \<Rightarrow> string list \<Rightarrow>
   (string \<Rightarrow> js_error + feed_item list) \<Rightarrow>
   (nat \<Rightarrow> Article list \<Rightarrow> js_error + content_block list) \<Rightarrow>
   (string \<Rightarrow> js_error + AnalyzedArticle option list) \<Rightarrow>
   (mail \<Rightarrow> js_error option) \<Rightarrow> run_outcome" where
  "processAndSendBrief cfg now date shortDate RSS_FEEDS parseURL create JSON_parse send =
     (let (articles, fetched) = fetchRecentArticles cfg now parseURL RSS_FEEDS
      in if length articles = 0 then
           \<lparr> mailRequests = [], run_log = [LogStarting] @ fetched @ [LogNoArticles] \<rparr>
         else
           (let (analyzed, judged) = analyzeWithClaude cfg create JSON_parse articles;
                logged = [LogStarting] @ fetched @ judged @ [LogSelected (length analyzed)]
            in if length analyzed = 0 then
                 \<lparr> mailRequests = [], run_log = logged @ [LogNoRelevant] \<rparr>
               else
                 (case formatEmailBrief date (length RSS_FEEDS) analyzed of
                    Inl error \<Rightarrow>
                      \<lparr> mailRequests = [], run_log = logged @ [LogProcessError error] \<rparr>
                  | Inr emailHtml \<Rightarrow>
                      (let request = \<lparr> mail_to = recipientEmail cfg,
                                       mail_items = length analyzed,
                                       mail_date = shortDate, mail_html = emailHtml \<rparr>
                       in (case send request of
                             Some error \<Rightarrow>
                               \<lparr> mailRequests = [request],
                                 run_log = logged @ [LogProcessError error] \<rparr>
                           | None \<Rightarrow>
                               \<lparr> mailRequests = [request],
                                 run_log = logged @ [LogEmailSent] \<rparr>)))))"

section \<open>The second source file: GET\<close>

definition CONFIG_part000 :: "string option \<Rightarrow> config" where
  "CONFIG_part000 env_RECIPIENT_EMAIL =
     \<lparr> maxArticlesPerFeed = 5, hoursLookback = 24, minRelevanceScore = 7,
       maxArticlesInBrief = 15, recipientEmail = js_or env_RECIPIENT_EMAIL [] \<rparr>"

text \<open>
  \<open>fetchRecentArticles\<close> of part\_000: the same window filter, truncation and
  normalisation per feed, no deduplication and no console output on success.
\<close>

fun fetchFeeds_part000 ::
  "config \<Rightarrow> int \<Rightarrow> (string \<Rightarrow> js_error + feed_item list) \<Rightarrow> string list \<Rightarrow>
   Article list \<Rightarrow> Article list" where
  "fetchFeeds_part000 cfg now parseURL [] collected = collected"
| "fetchFeeds_part000 cfg now parseURL (feedUrl # rest) collected =
     fetchFeeds_part000 cfg now parseURL rest
       (case parseURL feedUrl of
          Inl error \<Rightarrow> collected
        | Inr items \<Rightarrow> collected @ windowSliceMap cfg now items)"

definition fetchRecentArticles_part000 ::
  "config \<Rightarrow> int \<Rightarrow> (string \<Rightarrow> js_error + feed_item list) \<Rightarrow> string list \<Rightarrow> Article list" where
  "fetchRecentArticles_part000 cfg now parseURL RSS_FEEDS =
     fetchFeeds_part000 cfg now parseURL RSS_FEEDS []"

text \<open>
  \<open>analyzeWithClaude\<close> of part\_000 is the loop, the sort and the truncation of route.ts
  without the console output.
\<close>

definition analyzeWithClaude_part000 ::
  "config \<Rightarrow> (nat \<Rightarrow> Article list \<Rightarrow> js_error + content_block list) \<Rightarrow>
   (string \<Rightarrow> js_error + AnalyzedArticle option list) \<Rightarrow> Article list \<Rightarrow>
   AnalyzedArticle list" where
  "analyzeWithClaude_part000 cfg create JSON_parse articles =
     sortAndSlice cfg (fst (analyzeLoop cfg create JSON_parse articles 0 ([], [])))"

datatype json_value = JStr string | JNum nat | JBool bool | JError js_error

datatype response = TextResponse string nat | JsonResponse "(string \<times> json_value) list" nat

text \<open>
  \<open>GET\<close> of part\_000.  \<open>authorization\<close> is the request's header, \<open>CRON_SECRET\<close> the
  environment variable, \<open>timestamp\<close> the ISO form of the current time.  The result is
  the response and the requests made to the mail transport; the console output is left
  out.
\<close>

definition GET_part000 ::
  "config \<Rightarrow> int \<Rightarrow> string \<Rightarrow> string \<Rightarrow> string \<Rightarrow> string option \<Rightarrow> string option \<Rightarrow>
   string list \<Rightarrow> (string \<Rightarrow> js_error + feed_item list) \<Rightarrow>
   (nat \<Rightarrow> Article list \<Rightarrow> js_error + content_block list) \<Rightarrow>
   (string \<Rightarrow> js_error + AnalyzedArticle option list) \<Rightarrow>
   (mail \<Rightarrow> js_error option) \<Rightarrow> response \<times> mail list" where
  "GET_part000 cfg now date shortDate timestamp authorization CRON_SECRET RSS_FEEDS parseURL
       create JSON_parse send =
     (if authorization \<noteq> Some (''Bearer '' @ str CRON_SECRET) then
        (TextResponse ''Unauthorized'' 401, [])
      else
        (let articles = fetchRecentArticles_part000 cfg now parseURL RSS_FEEDS
         in if length articles = 0 then
              (JsonResponse [(''message'', JStr ''No new articles found''), (''count'', JNum 0)] 200,
               [])
            else
              (let analyzed = analyzeWithClaude_part000 cfg create JSON_parse articles
               in if length analyzed = 0 then
                    (JsonResponse
                       [(''message'', JStr ''No relevant articles found''), (''count'', JNum 0)] 200,
                     [])
                  else
                    (case formatEmailBrief_part000 date analyzed of
                       Inl error \<Rightarrow>
                         (JsonResponse [(''error'', JStr ''Failed to generate brief''),
                                        (''details'', JError error)] 500, [])
                     | Inr emailHtml \<Rightarrow>
                         (let request = \<lparr> mail_to = recipientEmail cfg,
                                          mail_items = length analyzed,
                                          mail_date = shortDate, mail_html = emailHtml \<rparr>
                          in (case send request of
                                Some error \<Rightarrow>
                                  (JsonResponse [(''error'', JStr ''Failed to generate brief''),
                                                 (''details'', JError error)] 500, [request])
                              | None \<Rightarrow>
                                  (JsonResponse
                                     [(''success'', JBool True),
                                      (''articlesProcessed'', JNum (length articles)),
                                      (''articlesSelected'', JNum (length analyzed)),
                                      (''timestamp'', JStr timestamp)] 200,
                                   [request])))))))"

section \<open>Auxiliary notions for the statements\<close>

text \<open>
  What one feed offers to the deduplication: nothing when the parser throws, otherwise its
  windowed, truncated and normalised items.  The articles offered by a run are the
  concatenation of these lists in the order of \<^verbatim>\<open>RSS_FEEDS\<close>.
\<close>

definition feedCandidates ::
  "config \<Rightarrow> int \<Rightarrow> (string \<Rightarrow> js_error + feed_item list) \<Rightarrow> string \<Rightarrow> Article list" where
  "feedCandidates cfg now parseURL feedUrl =
     (case parseURL feedUrl of Inl error \<Rightarrow> [] | Inr items \<Rightarrow> windowSliceMap cfg now items)"

text \<open>
  The per-feed selection in the order the specification words it: truncate the parsed feed
  first, apply the window filter afterwards.
\<close>

definition spec_perFeed :: "config \<Rightarrow> int \<Rightarrow> feed_item list \<Rightarrow> Article list" where
  "spec_perFeed cfg now items =
     map (toArticle now) (filter (isRecent cfg now) (take (maxArticlesPerFeed cfg) items))"

text \<open>The console lines that report a feed failure.\<close>

definition isFeedError :: "log_entry \<Rightarrow> bool" where
  "isFeedError e = (case e of LogFeedError i err \<Rightarrow> True | _ \<Rightarrow> False)"

text \<open>
  The batches of a run: their number, the \<open>k\<close>-th batch (counting from 0), and what the
  \<open>k\<close>-th pass of the loop adds to \<^verbatim>\<open>analyzed\<close> and to the console.
\<close>

definition batchCount :: "Article list \<Rightarrow> nat" where
  "batchCount articles = (length articles + batchSize - 1) div batchSize"

definition batchAt :: "Article list \<Rightarrow> nat \<Rightarrow> Article list" where
  "batchAt articles k = take batchSize (drop (k * batchSize) articles)"

definition batchResult ::
  "config \<Rightarrow> (nat \<Rightarrow> Article list \<Rightarrow> js_error + content_block list) \<Rightarrow>
   (string \<Rightarrow> js_error + AnalyzedArticle option list) \<Rightarrow> Article list \<Rightarrow> nat \<Rightarrow>
   AnalyzedArticle list \<times> log_entry list" where
  "batchResult cfg create JSON_parse articles k =
     analyzeBatch cfg JSON_parse (create k (batchAt articles k)) (k + 1)
       (length (batchAt articles k))"

text \<open>
  The sort key that the callback \<open>compareFn\<close> induces on records with a score, and the
  order of a descending list: \<open>a\<close> may stand before \<open>b\<close>.
\<close>

definition scoreKey :: "AnalyzedArticle \<Rightarrow> rat" where
  "scoreKey a = - (case score a of None \<Rightarrow> 0 | Some s \<Rightarrow> s)"

definition ranksAtLeast :: "AnalyzedArticle \<Rightarrow> AnalyzedArticle \<Rightarrow> bool" where
  "ranksAtLeast a b = (case (score a, score b) of (Some x, Some y) \<Rightarrow> y \<le> x | _ \<Rightarrow> False)"

text \<open>
  A record carries a tag; the section of a list of records, left out when the list is
  empty; the section of the opportunities.
\<close>

definition hasTag :: "string \<Rightarrow> AnalyzedArticle \<Rightarrow> bool" where
  "hasTag t a = (case tags a of None \<Rightarrow> False | Some ts \<Rightarrow> t \<in> set ts)"

definition sectionBlocks :: "section_name \<Rightarrow> AnalyzedArticle list \<Rightarrow> html_block list" where
  "sectionBlocks name xs = (if length xs > 0 then [SectionList name (map sectionLink xs)] else [])"

definition opportunityBlocks :: "AnalyzedArticle list \<Rightarrow> html_block list" where
  "opportunityBlocks articles =
     (if length (filter (\<lambda>a. truthyStr (opportunity a)) articles) > 0
      then [OpportunityList
              (map (\<lambda>a. str (opportunity a)) (filter (\<lambda>a. truthyStr (opportunity a)) articles))]
      else [])"

section \<open>Example data\<close>

text \<open>
  A run at clock reading \<open>ex_now\<close> over three feeds: the second feed fails, the third
  repeats a link of the first and carries one item exactly at the cutoff
  (\<open>200000000 - 48 * 3600000 = 27200000\<close>).
\<close>

definition ex_now :: int where
  "ex_now = 200000000"

definition ex_item :: "string \<Rightarrow> string \<Rightarrow> js_date option \<Rightarrow> feed_item" where
  "ex_item t l d =
     \<lparr> item_title = Some t, item_link = Some l, item_pubDate = d, item_content = None,
       item_contentSnippet = None, item_summary = None \<rparr>"

definition ex_parseURL :: "string \<Rightarrow> js_error + feed_item list" where
  "ex_parseURL u =
     (if u = ''feed1'' then
        Inr [ex_item ''A'' ''http://a'' (Some (Time 199999999)), ex_item ''B'' ''http://b'' None]
      else if u = ''feed3'' then
        Inr [ex_item ''A again'' ''http://a'' None,
             ex_item ''C'' ''http://c'' (Some (Time 27200001)),
             ex_item ''old'' ''http://d'' (Some (Time 27200000))]
      else Inl (Rejected ''timeout''))"

definition ex_article :: "string \<Rightarrow> string \<Rightarrow> js_date \<Rightarrow> Article" where
  "ex_article t l d = \<lparr> title = t, link = l, pubDate = d, content = [] \<rparr>"

text \<open>
  Records of the judge: \<open>ex_rec\<close> has a score, possibly \<open>skip\<close> and a title, and nothing
  else; \<open>ex_full\<close> has every field of the interface.  \<open>ex_JSON_parse\<close> gives the value
  of \<^verbatim>\<open>JSON.parse\<close> on the array texts of the examples and its SyntaxError on every
  other text that occurs in them; \<open>ex_create text\<close> is a judge that answers every request
  with \<open>text\<close>.
\<close>

definition ex_rec :: "rat \<Rightarrow> bool option \<Rightarrow> string option \<Rightarrow> AnalyzedArticle" where
  "ex_rec s sk t =
     \<lparr> score = Some s, skip = sk, a_title = t, summary = None, whyMatters = None, tags = None,
       url = None, opportunity = None \<rparr>"

definition ex_full :: "rat \<Rightarrow> string \<Rightarrow> string list \<Rightarrow> string option \<Rightarrow> AnalyzedArticle" where
  "ex_full s t ts opp =
     \<lparr> score = Some s, skip = None, a_title = Some t, summary = Some [''point''],
       whyMatters = Some ''why'', tags = Some ts, url = Some ''http://c'', opportunity = opp \<rparr>"

definition ex_block :: string where
  \<open>ex_block = ''[{"score":4,"skip":true},{"score":4,"title":"low"},{"score":8,"title":"C","summary":["point"],"whyMatters":"why","tags":["Regulatory"],"url":"http://c"},{"score":9,"skip":true}]''\<close>

definition ex_results :: "AnalyzedArticle option list" where
  "ex_results =
     [Some (ex_rec 4 (Some True) None), Some (ex_rec 4 None (Some ''low'')),
      Some (ex_full 8 ''C'' [''Regulatory''] None), Some (ex_rec 9 (Some True) None)]"

definition ex_response :: string where
  "ex_response = ''Here is the analysis: '' @ ex_block @ '' Done.''"

definition ex_block16 :: string where
  \<open>ex_block16 = ''[{"score":9},{"score":9},{"score":9},{"score":9},{"score":9},{"score":9},{"score":9},{"score":9},{"score":9},{"score":9},{"score":9},{"score":9},{"score":9},{"score":9},{"score":9},{"score":5}]''\<close>

definition ex_results16 :: "AnalyzedArticle option list" where
  "ex_results16 = replicate 15 (Some (ex_rec 9 None None)) @ [Some (ex_rec 5 None None)]"

definition ex_bare_block :: string where
  \<open>ex_bare_block = ''[{"score":7}]''\<close>

definition ex_null_block :: string where
  \<open>ex_null_block = ''[{"score":9},null]''\<close>

definition ex_bare_response :: string where
  "ex_bare_response = ''Result: '' @ ex_bare_block"

definition ex_JSON_parse :: "string \<Rightarrow> js_error + AnalyzedArticle option list" where
  "ex_JSON_parse s =
     (if s = ex_block then Inr ex_results
      else if s = ex_block16 then Inr ex_results16
      else if s = ex_bare_block then Inr [Some (ex_rec 7 None None)]
      else if s = ex_null_block then Inr [Some (ex_rec 9 None None), None]
      else Inl SyntaxError)"

definition ex_create :: "string \<Rightarrow> nat \<Rightarrow> Article list \<Rightarrow> js_error + content_block list" where
  "ex_create text k batch = Inr [TextBlock text]"

definition ex_articles :: "Article list" where
  "ex_articles =
     [ex_article ''A'' ''http://a'' (Time 199999999), ex_article ''B'' ''http://b'' (Time 200000000),
      ex_article ''C'' ''http://c'' (Time 27200001)]"

definition ex_bracketed :: string where
  "ex_bracketed = ''Sources [1]: '' @ ex_block"

definition ex_bracketed_match :: string where
  "ex_bracketed_match = ''[1]: '' @ ex_block"

definition ex_tagged :: "AnalyzedArticle list" where
  "ex_tagged =
     [ex_full 8 ''C'' [''Regulatory'', ''Market''] (Some ''advise''), ex_full 6 ''D'' [''Risk''] None]"

definition ex_send :: "mail \<Rightarrow> js_error option" where
  "ex_send request = None"

definition ex_feeds :: "string list" where
  "ex_feeds = [''feed1'', ''feed2'', ''feed3'']"

definition ex_down :: "string \<Rightarrow> js_error + feed_item list" where
  "ex_down u = Inl (Rejected ''down'')"

definition ex_nothing :: string where
  "ex_nothing = ''Nothing relevant today.''"

section \<open>Properties of fetchRecentArticles\<close>

lemma dedupFilter_Cons:
  "dedupFilter s (a # as) =
     (if link a \<in> s then dedupFilter s as
      else (a # fst (dedupFilter (insert (link a) s) as),
            snd (dedupFilter (insert (link a) s) as)))"
  by (simp split: prod.splits)

declare dedupFilter.simps(2) [simp del]

lemma dedupFilter_append:
  "dedupFilter s (xs @ ys) =
     (fst (dedupFilter s xs) @ fst (dedupFilter (snd (dedupFilter s xs)) ys),
      snd (dedupFilter (snd (dedupFilter s xs)) ys))"
  by (induction xs arbitrary: s) (simp_all add: dedupFilter_Cons)

lemma dedupFilter_seen: "snd (dedupFilter s xs) = s \<union> link ` set xs"
  by (induction xs arbitrary: s) (auto simp: dedupFilter_Cons)

lemma dedupFilter_subseq: "subseq (fst (dedupFilter s xs)) xs"
  by (induction xs arbitrary: s) (auto simp: dedupFilter_Cons)

lemma dedupFilter_links: "link ` set (fst (dedupFilter s xs)) = link ` set xs - s"
  by (induction xs arbitrary: s) (auto simp: dedupFilter_Cons)

lemma dedupFilter_distinct: "distinct (map link (fst (dedupFilter s xs)))"
proof (induction xs arbitrary: s)
  case Nil
  then show ?case by simp
next
  case (Cons a as)
  have "link a \<notin> link ` set (fst (dedupFilter (insert (link a) s) as))"
    by (simp add: dedupFilter_links)
  then show ?case using Cons.IH by (simp add: dedupFilter_Cons)
qed

lemma dedupFilter_first:
  "a \<in> set (fst (dedupFilter s xs)) \<Longrightarrow> find (\<lambda>b. link b = link a) xs = Some a"
proof (induction xs arbitrary: s)
  case Nil
  then show ?case by simp
next
  case (Cons x xs)
  show ?case
  proof (cases "link x \<in> s")
    case True
    with Cons.prems have in_rest: "a \<in> set (fst (dedupFilter s xs))"
      by (simp add: dedupFilter_Cons)
    then have "link a \<in> link ` set (fst (dedupFilter s xs))" by blast
    then have "link a \<notin> s" by (simp add: dedupFilter_links)
    with True have "link x \<noteq> link a" by auto
    then show ?thesis using Cons.IH [OF in_rest] by simp
  next
    case False
    with Cons.prems have "a = x \<or> a \<in> set (fst (dedupFilter (insert (link x) s) xs))"
      by (auto simp: dedupFilter_Cons)
    then show ?thesis
    proof
      assume "a = x"
      then show ?thesis by simp
    next
      assume in_rest: "a \<in> set (fst (dedupFilter (insert (link x) s) xs))"
      then have "link a \<in> link ` set (fst (dedupFilter (insert (link x) s) xs))" by blast
      then have "link a \<noteq> link x" by (simp add: dedupFilter_links)
      then show ?thesis using Cons.IH [OF in_rest] by simp
    qed
  qed
qed

lemma fetchFeed_articles:
  "allArticles (fetchFeed cfg now parseURL R u st) =
     allArticles st @ fst (dedupFilter (seenLinks st) (feedCandidates cfg now parseURL u))"
  by (simp add: fetchFeed_def feedCandidates_def split: sum.splits prod.splits)

lemma fetchFeed_seen:
  "seenLinks (fetchFeed cfg now parseURL R u st) =
     snd (dedupFilter (seenLinks st) (feedCandidates cfg now parseURL u))"
  by (simp add: fetchFeed_def feedCandidates_def split: sum.splits prod.splits)

lemma fetchFeeds_articles:
  "allArticles (fetchFeeds cfg now parseURL R fs st) =
     allArticles st @
       fst (dedupFilter (seenLinks st) (concat (map (feedCandidates cfg now parseURL) fs)))
   \<and> seenLinks (fetchFeeds cfg now parseURL R fs st) =
       snd (dedupFilter (seenLinks st) (concat (map (feedCandidates cfg now parseURL) fs)))"
proof (induction fs arbitrary: st)
  case Nil
  then show ?case by simp
next
  case (Cons u fs)
  show ?case
    by (simp add: Cons.IH fetchFeed_articles fetchFeed_seen dedupFilter_append
        split: prod.splits)
qed

lemma fetchRecentArticles_dedup:
  "fst (fetchRecentArticles cfg now parseURL R) =
     fst (dedupFilter {} (concat (map (feedCandidates cfg now parseURL) R)))"
  by (simp add: fetchRecentArticles_def Let_def fetchFeeds_articles)

lemma filter_take_prefix:
  "filter P (take n xs) = take (length (filter P (take n xs))) (filter P xs)"
proof -
  have "filter P xs = filter P (take n xs) @ filter P (drop n xs)"
    by (metis append_take_drop_id filter_append)
  then show ?thesis by (metis append_eq_conv_conj)
qed

lemma length_filter_take: "length (filter P (take n xs)) \<le> n"
  by (metis length_filter_le length_take min.cobounded2 order_trans)

lemma spec_perFeed_take:
  "spec_perFeed cfg now items =
     take (length (filter (isRecent cfg now) (take (maxArticlesPerFeed cfg) items)))
       (windowSliceMap cfg now items)"
proof -
  let ?P = "isRecent cfg now" and ?n = "maxArticlesPerFeed cfg"
  let ?k = "length (filter ?P (take ?n items))"
  have "filter ?P (take ?n items) = take ?k (filter ?P items)"
    by (rule filter_take_prefix)
  also have "\<dots> = take ?k (take ?n (filter ?P items))"
    using length_filter_take [of ?P ?n items] by (simp add: min_def)
  finally show ?thesis
    by (simp add: spec_perFeed_def windowSliceMap_def take_map)
qed


lemmas ex_defs = ex_now_def ex_item_def ex_parseURL_def ex_article_def CONFIG_def js_or_def

lemma ex_candidates1:
  "feedCandidates (CONFIG None) ex_now ex_parseURL ''feed1'' =
     [ex_article ''A'' ''http://a'' (Time 199999999), ex_article ''B'' ''http://b'' (Time 200000000)]"
  by (simp add: feedCandidates_def windowSliceMap_def isRecent_def itemDate_def cutoffDate_def
      toArticle_def ex_defs)

lemma ex_candidates2: "feedCandidates (CONFIG None) ex_now ex_parseURL ''feed2'' = []"
  by (simp add: feedCandidates_def ex_defs)

lemma ex_candidates3:
  "feedCandidates (CONFIG None) ex_now ex_parseURL ''feed3'' =
     [ex_article ''A again'' ''http://a'' (Time 200000000),
      ex_article ''C'' ''http://c'' (Time 27200001)]"
  by (simp add: feedCandidates_def windowSliceMap_def isRecent_def itemDate_def cutoffDate_def
      toArticle_def ex_defs)

lemma ex_fetch:
  "fst (fetchRecentArticles (CONFIG None) ex_now ex_parseURL [''feed1'', ''feed2'', ''feed3'']) =
     [ex_article ''A'' ''http://a'' (Time 199999999), ex_article ''B'' ''http://b'' (Time 200000000),
      ex_article ''C'' ''http://c'' (Time 27200001)]"
  by (simp add: fetchRecentArticles_dedup ex_candidates1 ex_candidates2 ex_candidates3
      dedupFilter_Cons ex_article_def)

lemma ex_fetch_log:
  "snd (fetchRecentArticles (CONFIG None) ex_now ex_parseURL [''feed1'', ''feed2'', ''feed3'']) =
     [LogFeedOk 1 2, LogFeedError 2 (Rejected ''timeout''), LogFeedOk 3 1, LogTotalUnique 3]"
  by (simp add: fetchRecentArticles_def fetchFeed_def windowSliceMap_def isRecent_def itemDate_def cutoffDate_def
      toArticle_def ex_defs dedupFilter_Cons)

lemma fetch_all_recent:
  "\<forall>a \<in> set (windowSliceMap cfg now items). dateGt (pubDate a) (cutoffDate cfg now)"
proof -
  have "set (take (maxArticlesPerFeed cfg) (filter (isRecent cfg now) items))
          \<subseteq> {i. isRecent cfg now i}"
    using set_take_subset [of "maxArticlesPerFeed cfg" "filter (isRecent cfg now) items"] by auto
  then show ?thesis
    by (auto simp: windowSliceMap_def toArticle_def isRecent_def)
qed

lemma candidates_recent:
  "a \<in> set (concat (map (feedCandidates cfg now parseURL) fs)) \<Longrightarrow>
     dateGt (pubDate a) (cutoffDate cfg now)"
  using fetch_all_recent by (auto simp: feedCandidates_def split: sum.splits)

lemma fetched_subset_candidates:
  "set (fst (fetchRecentArticles cfg now parseURL R))
     \<subseteq> set (concat (map (feedCandidates cfg now parseURL) R))"
  unfolding fetchRecentArticles_dedup
  by (metis dedupFilter_subseq notin_set_nthsI subseq_conv_nths subsetI)

subsection \<open>The time window\<close>

text \<open>
  C4.  An item whose publish date is at or before \<open>now - hoursLookback\<close> fails the window
  filter and one strictly after it passes; an item without a publish date gets the
  current time and passes (for a positive lookback); every article the fetch returns is
  strictly after the cutoff.
\<close>

theorem window_filter_cutoff:
  assumes "0 < hoursLookback cfg"
  shows "(item_pubDate item = Some (Time t) \<and> t \<le> now - int (hoursLookback cfg) * 60 * 60 * 1000
            \<longrightarrow> \<not> isRecent cfg now item)
       \<and> (item_pubDate item = Some (Time t) \<and> now - int (hoursLookback cfg) * 60 * 60 * 1000 < t
            \<longrightarrow> isRecent cfg now item)
       \<and> (item_pubDate item = None
            \<longrightarrow> isRecent cfg now item \<and> pubDate (toArticle now item) = Time now)
       \<and> (\<forall>a \<in> set (fst (fetchRecentArticles cfg now parseURL RSS_FEEDS)).
             dateGt (pubDate a) (cutoffDate cfg now))"
proof -
  have late: "item_pubDate item = Some (Time t) \<Longrightarrow>
      isRecent cfg now item = (now - int (hoursLookback cfg) * 60 * 60 * 1000 < t)"
    by (simp add: isRecent_def itemDate_def cutoffDate_def)
  have missing: "item_pubDate item = None \<Longrightarrow> isRecent cfg now item"
    using assms by (simp add: isRecent_def itemDate_def cutoffDate_def)
  have stamp: "item_pubDate item = None \<Longrightarrow> pubDate (toArticle now item) = Time now"
    by (simp add: toArticle_def itemDate_def)
  have all: "\<forall>a \<in> set (fst (fetchRecentArticles cfg now parseURL RSS_FEEDS)).
      dateGt (pubDate a) (cutoffDate cfg now)"
    using fetched_subset_candidates candidates_recent by blast
  show ?thesis using late missing stamp all by auto
qed

theorem window_filter_cutoff_witness:
  "0 < hoursLookback (CONFIG None)
   \<and> \<not> isRecent (CONFIG None) ex_now (ex_item ''old'' ''http://d'' (Some (Time 27200000)))
   \<and> isRecent (CONFIG None) ex_now (ex_item ''C'' ''http://c'' (Some (Time 27200001)))
   \<and> isRecent (CONFIG None) ex_now (ex_item ''B'' ''http://b'' None)
   \<and> pubDate (toArticle ex_now (ex_item ''B'' ''http://b'' None)) = Time ex_now
   \<and> list_all (\<lambda>a. dateGt (pubDate a) (cutoffDate (CONFIG None) ex_now))
       (fst (fetchRecentArticles (CONFIG None) ex_now ex_parseURL [''feed1'', ''feed2'', ''feed3'']))
   \<and> length (fst (fetchRecentArticles (CONFIG None) ex_now ex_parseURL
        [''feed1'', ''feed2'', ''feed3''])) = 3"
proof -
  have pos: "0 < hoursLookback (CONFIG None)" by (simp add: CONFIG_def)
  note w = window_filter_cutoff [OF pos, of _ _ ex_now ex_parseURL "[''feed1'', ''feed2'', ''feed3'']"]
  have old: "\<not> isRecent (CONFIG None) ex_now (ex_item ''old'' ''http://d'' (Some (Time 27200000)))"
    using w [of "ex_item ''old'' ''http://d'' (Some (Time 27200000))" 27200000]
    by (simp add: ex_defs)
  have fresh: "isRecent (CONFIG None) ex_now (ex_item ''C'' ''http://c'' (Some (Time 27200001)))"
    using w [of "ex_item ''C'' ''http://c'' (Some (Time 27200001))" 27200001]
    by (simp add: ex_defs)
  have nodate: "isRecent (CONFIG None) ex_now (ex_item ''B'' ''http://b'' None)
      \<and> pubDate (toArticle ex_now (ex_item ''B'' ''http://b'' None)) = Time ex_now"
    using w [of "ex_item ''B'' ''http://b'' None" 0] by (simp add: ex_item_def)
  have every: "list_all (\<lambda>a. dateGt (pubDate a) (cutoffDate (CONFIG None) ex_now))
       (fst (fetchRecentArticles (CONFIG None) ex_now ex_parseURL [''feed1'', ''feed2'', ''feed3'']))"
    using w [of "ex_item [] [] None" 0] by (simp add: list_all_iff)
  have len: "length (fst (fetchRecentArticles (CONFIG None) ex_now ex_parseURL
        [''feed1'', ''feed2'', ''feed3''])) = 3"
    by (simp add: ex_fetch)
  show ?thesis using pos old fresh nodate every len by simp
qed

lemma dedupFilter_positions:
  "fst (dedupFilter s xs) =
     map (\<lambda>i. xs ! i)
       (filter (\<lambda>i. link (xs ! i) \<notin> s \<union> link ` set (take i xs)) [0..<length xs])"
proof (induction xs arbitrary: s)
  case Nil
  then show ?case by simp
next
  case (Cons a as)
  have upt: "[0..<length (a # as)] = 0 # map Suc [0..<length as]"
    by (simp add: upt_conv_Cons map_Suc_upt del: upt_Suc)
  show ?case
  proof (cases "link a \<in> s")
    case True
    then have "(\<lambda>i. link (as ! i) \<notin> s \<and> link (as ! i) \<noteq> link a
                  \<and> link (as ! i) \<notin> link ` set (take i as)) =
               (\<lambda>i. link (as ! i) \<notin> s \<and> link (as ! i) \<notin> link ` set (take i as))"
      by auto
    with True show ?thesis
      unfolding upt by (simp add: dedupFilter_Cons Cons.IH filter_map comp_def)
  next
    case False
    then show ?thesis
      unfolding upt by (simp add: dedupFilter_Cons Cons.IH filter_map comp_def conj_comms)
  qed
qed

lemma feedCandidates_failed:
  "parseURL feedUrl = Inl error \<Longrightarrow> feedCandidates cfg now parseURL feedUrl = []"
  by (simp add: feedCandidates_def)

lemma feedCandidates_upd:
  "feedCandidates cfg now (parseURL(feedUrl := Inr [])) u =
     (if u = feedUrl then [] else feedCandidates cfg now parseURL u)"
  by (simp add: feedCandidates_def windowSliceMap_def)

lemma fetchFeed_errors:
  "filter isFeedError (fetch_log (fetchFeed cfg now parseURL R u st)) =
     filter isFeedError (fetch_log st) @
       (case parseURL u of Inl error \<Rightarrow> [LogFeedError (indexOf R u + 1) error] | Inr items \<Rightarrow> [])"
  by (simp add: fetchFeed_def isFeedError_def split: sum.splits prod.splits)

lemma fetchFeeds_errors:
  "filter isFeedError (fetch_log (fetchFeeds cfg now parseURL R fs st)) =
     filter isFeedError (fetch_log st) @
       concat (map (\<lambda>u. case parseURL u of
                           Inl error \<Rightarrow> [LogFeedError (indexOf R u + 1) error]
                         | Inr items \<Rightarrow> []) fs)"
  by (induction fs arbitrary: st) (simp_all add: fetchFeed_errors)

lemma fetchRecentArticles_errors:
  "filter isFeedError (snd (fetchRecentArticles cfg now parseURL R)) =
     concat (map (\<lambda>u. case parseURL u of
                         Inl error \<Rightarrow> [LogFeedError (indexOf R u + 1) error]
                       | Inr items \<Rightarrow> []) R)"
  by (simp add: fetchRecentArticles_def Let_def fetchFeeds_errors isFeedError_def)

subsection \<open>Window filter and truncation per feed\<close>

text \<open>
  C9 (as amended).  The code filters by the window first and truncates afterwards:
  a feed offers the first \<open>maxArticlesPerFeed\<close> of its windowed items.  Truncating first
  and filtering afterwards, as the specification words it, gives a prefix of that list,
  and the same list when the feed has at most \<open>maxArticlesPerFeed\<close> items.
\<close>

theorem per_feed_filter_then_truncate:
  "windowSliceMap cfg now items =
     map (toArticle now) (take (maxArticlesPerFeed cfg) (filter (isRecent cfg now) items))
   \<and> spec_perFeed cfg now items =
       take (length (filter (isRecent cfg now) (take (maxArticlesPerFeed cfg) items)))
         (windowSliceMap cfg now items)
   \<and> prefix (spec_perFeed cfg now items) (windowSliceMap cfg now items)
   \<and> (length items \<le> maxArticlesPerFeed cfg \<longrightarrow>
        windowSliceMap cfg now items = spec_perFeed cfg now items)"
proof -
  have code: "windowSliceMap cfg now items =
      map (toArticle now) (take (maxArticlesPerFeed cfg) (filter (isRecent cfg now) items))"
    by (simp add: windowSliceMap_def)
  have "prefix (take (length (filter (isRecent cfg now) (take (maxArticlesPerFeed cfg) items)))
          (windowSliceMap cfg now items)) (windowSliceMap cfg now items)"
    by (rule take_is_prefix)
  then have pre: "prefix (spec_perFeed cfg now items) (windowSliceMap cfg now items)"
    by (simp add: spec_perFeed_take [symmetric])
  have short: "length items \<le> maxArticlesPerFeed cfg \<Longrightarrow>
      windowSliceMap cfg now items = spec_perFeed cfg now items"
  proof -
    assume le: "length items \<le> maxArticlesPerFeed cfg"
    have "length (filter (isRecent cfg now) items) \<le> maxArticlesPerFeed cfg"
      using le length_filter_le [of "isRecent cfg now" items] by linarith
    then show ?thesis using le by (simp add: windowSliceMap_def spec_perFeed_def)
  qed
  show ?thesis using code spec_perFeed_take pre short by blast
qed

theorem per_feed_filter_then_truncate_witness:
  "length [ex_item ''A'' ''http://a'' (Some (Time 199999999)), ex_item ''B'' ''http://b'' None]
     \<le> maxArticlesPerFeed (CONFIG None)
   \<and> windowSliceMap (CONFIG None) ex_now
       [ex_item ''A'' ''http://a'' (Some (Time 199999999)), ex_item ''B'' ''http://b'' None] =
     spec_perFeed (CONFIG None) ex_now
       [ex_item ''A'' ''http://a'' (Some (Time 199999999)), ex_item ''B'' ''http://b'' None]
   \<and> spec_perFeed (CONFIG None) ex_now
       [ex_item ''A'' ''http://a'' (Some (Time 199999999)), ex_item ''B'' ''http://b'' None] =
     [ex_article ''A'' ''http://a'' (Time 199999999), ex_article ''B'' ''http://b'' (Time 200000000)]"
proof -
  have le: "length [ex_item ''A'' ''http://a'' (Some (Time 199999999)), ex_item ''B'' ''http://b'' None]
     \<le> maxArticlesPerFeed (CONFIG None)"
    by (simp add: CONFIG_def)
  have eq: "windowSliceMap (CONFIG None) ex_now
       [ex_item ''A'' ''http://a'' (Some (Time 199999999)), ex_item ''B'' ''http://b'' None] =
     spec_perFeed (CONFIG None) ex_now
       [ex_item ''A'' ''http://a'' (Some (Time 199999999)), ex_item ''B'' ''http://b'' None]"
    using per_feed_filter_then_truncate [of "CONFIG None" ex_now
        "[ex_item ''A'' ''http://a'' (Some (Time 199999999)), ex_item ''B'' ''http://b'' None]"] le
    by blast
  have val: "spec_perFeed (CONFIG None) ex_now
       [ex_item ''A'' ''http://a'' (Some (Time 199999999)), ex_item ''B'' ''http://b'' None] =
     [ex_article ''A'' ''http://a'' (Time 199999999), ex_article ''B'' ''http://b'' (Time 200000000)]"
    by (simp add: spec_perFeed_def isRecent_def itemDate_def cutoffDate_def toArticle_def ex_defs)
  show ?thesis using le eq val by simp
qed

text \<open>
  C9 as stated fails: with three stale items ahead of a fresh one and
  \<open>maxArticlesPerFeed = 3\<close>, the code returns the fresh article, while truncating first
  returns nothing.
\<close>

theorem truncate_before_window_counterexample:
  "windowSliceMap (CONFIG None) ex_now
     [ex_item ''old1'' ''http://1'' (Some (Time 1000)),
      ex_item ''old2'' ''http://2'' (Some (Time 2000)),
      ex_item ''old3'' ''http://3'' (Some (Time 3000)),
      ex_item ''C'' ''http://c'' (Some (Time 27200001))]
     = [ex_article ''C'' ''http://c'' (Time 27200001)]
   \<and> spec_perFeed (CONFIG None) ex_now
     [ex_item ''old1'' ''http://1'' (Some (Time 1000)),
      ex_item ''old2'' ''http://2'' (Some (Time 2000)),
      ex_item ''old3'' ''http://3'' (Some (Time 3000)),
      ex_item ''C'' ''http://c'' (Some (Time 27200001))]
     = []"
  by (simp add: windowSliceMap_def spec_perFeed_def isRecent_def itemDate_def cutoffDate_def
      toArticle_def ex_defs)

subsection \<open>Deduplication by link\<close>

text \<open>
  C3.  The articles a run returns are the articles offered by the feeds, in feed order, with
  exactly those dropped whose link was offered earlier in the run: the result is a
  subsequence of the offered list, no link occurs twice, every offered link is kept once,
  the kept copy of a link is its first occurrence, and a position is kept iff no earlier
  position carries the same link.
\<close>

theorem dedup_first_link_wins:
  "subseq (fst (fetchRecentArticles cfg now parseURL RSS_FEEDS))
          (concat (map (feedCandidates cfg now parseURL) RSS_FEEDS))
   \<and> distinct (map link (fst (fetchRecentArticles cfg now parseURL RSS_FEEDS)))
   \<and> link ` set (fst (fetchRecentArticles cfg now parseURL RSS_FEEDS)) =
       link ` set (concat (map (feedCandidates cfg now parseURL) RSS_FEEDS))
   \<and> (\<forall>a \<in> set (fst (fetchRecentArticles cfg now parseURL RSS_FEEDS)).
        find (\<lambda>b. link b = link a) (concat (map (feedCandidates cfg now parseURL) RSS_FEEDS))
          = Some a)
   \<and> fst (fetchRecentArticles cfg now parseURL RSS_FEEDS) =
       map (\<lambda>i. concat (map (feedCandidates cfg now parseURL) RSS_FEEDS) ! i)
         (filter (\<lambda>i. link (concat (map (feedCandidates cfg now parseURL) RSS_FEEDS) ! i)
                      \<notin> link ` set (take i (concat (map (feedCandidates cfg now parseURL) RSS_FEEDS))))
            [0..<length (concat (map (feedCandidates cfg now parseURL) RSS_FEEDS))])"
proof -
  let ?cands = "concat (map (feedCandidates cfg now parseURL) RSS_FEEDS)"
  have out: "fst (fetchRecentArticles cfg now parseURL RSS_FEEDS) = fst (dedupFilter {} ?cands)"
    by (rule fetchRecentArticles_dedup)
  have "subseq (fst (dedupFilter {} ?cands)) ?cands"
    by (rule dedupFilter_subseq)
  moreover have "distinct (map link (fst (dedupFilter {} ?cands)))"
    by (rule dedupFilter_distinct)
  moreover have "link ` set (fst (dedupFilter {} ?cands)) = link ` set ?cands"
    by (simp add: dedupFilter_links)
  moreover have "\<forall>a \<in> set (fst (dedupFilter {} ?cands)).
      find (\<lambda>b. link b = link a) ?cands = Some a"
    using dedupFilter_first by blast
  moreover have "fst (dedupFilter {} ?cands) =
      map (\<lambda>i. ?cands ! i)
        (filter (\<lambda>i. link (?cands ! i) \<notin> link ` set (take i ?cands)) [0..<length ?cands])"
    using dedupFilter_positions [of "{}" ?cands] by simp
  ultimately show ?thesis unfolding out by blast
qed

theorem dedup_first_link_wins_witness:
  "concat (map (feedCandidates (CONFIG None) ex_now ex_parseURL) [''feed1'', ''feed2'', ''feed3'']) =
     [ex_article ''A'' ''http://a'' (Time 199999999), ex_article ''B'' ''http://b'' (Time 200000000),
      ex_article ''A again'' ''http://a'' (Time 200000000),
      ex_article ''C'' ''http://c'' (Time 27200001)]
   \<and> fst (fetchRecentArticles (CONFIG None) ex_now ex_parseURL [''feed1'', ''feed2'', ''feed3'']) =
     [ex_article ''A'' ''http://a'' (Time 199999999), ex_article ''B'' ''http://b'' (Time 200000000),
      ex_article ''C'' ''http://c'' (Time 27200001)]
   \<and> distinct (map link
        (fst (fetchRecentArticles (CONFIG None) ex_now ex_parseURL [''feed1'', ''feed2'', ''feed3''])))
   \<and> find (\<lambda>b. link b = ''http://a'')
        (concat (map (feedCandidates (CONFIG None) ex_now ex_parseURL)
           [''feed1'', ''feed2'', ''feed3''])) =
      Some (ex_article ''A'' ''http://a'' (Time 199999999))"
proof -
  let ?R = "[''feed1'', ''feed2'', ''feed3'']"
  note d = dedup_first_link_wins [of "CONFIG None" ex_now ex_parseURL ?R]
  have cands: "concat (map (feedCandidates (CONFIG None) ex_now ex_parseURL) ?R) =
     [ex_article ''A'' ''http://a'' (Time 199999999), ex_article ''B'' ''http://b'' (Time 200000000),
      ex_article ''A again'' ''http://a'' (Time 200000000),
      ex_article ''C'' ''http://c'' (Time 27200001)]"
    by (simp add: ex_candidates1 ex_candidates2 ex_candidates3)
  have dist: "distinct (map link (fst (fetchRecentArticles (CONFIG None) ex_now ex_parseURL ?R)))"
    using d by blast
  have "ex_article ''A'' ''http://a'' (Time 199999999)
      \<in> set (fst (fetchRecentArticles (CONFIG None) ex_now ex_parseURL ?R))"
    by (simp add: ex_fetch)
  then have "find (\<lambda>b. link b = link (ex_article ''A'' ''http://a'' (Time 199999999)))
      (concat (map (feedCandidates (CONFIG None) ex_now ex_parseURL) ?R)) =
      Some (ex_article ''A'' ''http://a'' (Time 199999999))"
    using d by blast
  then have first: "find (\<lambda>b. link b = ''http://a'')
      (concat (map (feedCandidates (CONFIG None) ex_now ex_parseURL) ?R)) =
      Some (ex_article ''A'' ''http://a'' (Time 199999999))"
    by (simp add: ex_article_def)
  show ?thesis using cands ex_fetch dist first by simp
qed

subsection \<open>A failing feed\<close>

text \<open>
  C6.  When the parser throws for one feed, the run returns what it would return without
  that feed (equivalently, with that feed empty): the articles offered by the other feeds,
  deduplicated.  The failure is logged with the number of the feed, and the log has one
  such entry per failing feed.
\<close>

theorem feed_failure_isolated:
  assumes "parseURL feedUrl = Inl error"
  shows "fst (fetchRecentArticles cfg now parseURL (before @ feedUrl # after)) =
           fst (fetchRecentArticles cfg now parseURL (before @ after))
       \<and> fst (fetchRecentArticles cfg now parseURL (before @ feedUrl # after)) =
           fst (fetchRecentArticles cfg now (parseURL(feedUrl := Inr [])) (before @ feedUrl # after))
       \<and> fst (fetchRecentArticles cfg now parseURL (before @ feedUrl # after)) =
           fst (dedupFilter {}
             (concat (map (feedCandidates cfg now parseURL) (before @ after))))
       \<and> LogFeedError (indexOf (before @ feedUrl # after) feedUrl + 1) error
           \<in> set (snd (fetchRecentArticles cfg now parseURL (before @ feedUrl # after)))
       \<and> length (filter isFeedError
           (snd (fetchRecentArticles cfg now parseURL (before @ feedUrl # after)))) =
         length (filter (\<lambda>u. isl (parseURL u)) (before @ feedUrl # after))"
proof -
  let ?R = "before @ feedUrl # after"
  have none: "feedCandidates cfg now parseURL feedUrl = []"
    using assms by (rule feedCandidates_failed)
  have cands: "concat (map (feedCandidates cfg now parseURL) ?R) =
      concat (map (feedCandidates cfg now parseURL) (before @ after))"
    by (simp add: none)
  have removed: "fst (fetchRecentArticles cfg now parseURL ?R) =
      fst (fetchRecentArticles cfg now parseURL (before @ after))"
    by (simp only: fetchRecentArticles_dedup cands)
  have "map (feedCandidates cfg now (parseURL(feedUrl := Inr []))) ?R =
      map (feedCandidates cfg now parseURL) ?R"
    by (rule map_cong) (simp_all add: feedCandidates_upd none)
  then have emptied: "fst (fetchRecentArticles cfg now parseURL ?R) =
      fst (fetchRecentArticles cfg now (parseURL(feedUrl := Inr [])) ?R)"
    by (simp only: fetchRecentArticles_dedup)
  have others: "fst (fetchRecentArticles cfg now parseURL ?R) =
      fst (dedupFilter {} (concat (map (feedCandidates cfg now parseURL) (before @ after))))"
    by (simp only: fetchRecentArticles_dedup cands)
  have "LogFeedError (indexOf ?R feedUrl + 1) error
      \<in> set (filter isFeedError (snd (fetchRecentArticles cfg now parseURL ?R)))"
    unfolding fetchRecentArticles_errors using assms by simp
  then have logged: "LogFeedError (indexOf ?R feedUrl + 1) error
      \<in> set (snd (fetchRecentArticles cfg now parseURL ?R))"
    by simp
  have "length (concat (map (\<lambda>u. case parseURL u of
                         Inl error \<Rightarrow> [LogFeedError (indexOf R u + 1) error]
                       | Inr items \<Rightarrow> []) fs)) = length (filter (\<lambda>u. isl (parseURL u)) fs)"
    for R fs
    by (induction fs) (simp_all split: sum.splits)
  then have count: "length (filter isFeedError (snd (fetchRecentArticles cfg now parseURL ?R))) =
      length (filter (\<lambda>u. isl (parseURL u)) ?R)"
    by (simp only: fetchRecentArticles_errors)
  show ?thesis using removed emptied others logged count by blast
qed

theorem feed_failure_isolated_witness:
  "ex_parseURL ''feed2'' = Inl (Rejected ''timeout'')
   \<and> fst (fetchRecentArticles (CONFIG None) ex_now ex_parseURL [''feed1'', ''feed2'', ''feed3'']) =
       fst (fetchRecentArticles (CONFIG None) ex_now ex_parseURL [''feed1'', ''feed3''])
   \<and> fst (fetchRecentArticles (CONFIG None) ex_now ex_parseURL [''feed1'', ''feed2'', ''feed3'']) =
       [ex_article ''A'' ''http://a'' (Time 199999999), ex_article ''B'' ''http://b'' (Time 200000000),
        ex_article ''C'' ''http://c'' (Time 27200001)]
   \<and> snd (fetchRecentArticles (CONFIG None) ex_now ex_parseURL [''feed1'', ''feed2'', ''feed3'']) =
       [LogFeedOk 1 2, LogFeedError 2 (Rejected ''timeout''), LogFeedOk 3 1, LogTotalUnique 3]"
proof -
  have failed: "ex_parseURL ''feed2'' = Inl (Rejected ''timeout'')"
    by (simp add: ex_parseURL_def)
  have "fst (fetchRecentArticles (CONFIG None) ex_now ex_parseURL ([''feed1''] @ ''feed2'' # [''feed3''])) =
       fst (fetchRecentArticles (CONFIG None) ex_now ex_parseURL ([''feed1''] @ [''feed3'']))"
    using feed_failure_isolated [where parseURL = ex_parseURL and feedUrl = "''feed2''"
        and error = "Rejected ''timeout''" and cfg = "CONFIG None" and now = ex_now
        and before = "[''feed1'']" and after = "[''feed3'']", OF failed]
    by blast
  then have removed:
    "fst (fetchRecentArticles (CONFIG None) ex_now ex_parseURL [''feed1'', ''feed2'', ''feed3'']) =
       fst (fetchRecentArticles (CONFIG None) ex_now ex_parseURL [''feed1'', ''feed3''])"
    by simp
  show ?thesis using failed removed ex_fetch ex_fetch_log by simp
qed

section \<open>Properties of analyzeWithClaude\<close>

declare analyzeLoop.simps [simp del]

lemma filterRelevant_Inr:
  "None \<notin> set rs \<Longrightarrow> filterRelevant cfg rs = Inr (filter (isRelevant cfg) (map the rs))"
proof (induction rs)
  case Nil
  then show ?case by simp
next
  case (Cons r rs)
  then show ?case by (cases r) simp_all
qed

lemma filterRelevant_Inl: "None \<in> set rs \<Longrightarrow> filterRelevant cfg rs = Inl TypeError"
proof (induction rs)
  case Nil
  then show ?case by simp
next
  case (Cons r rs)
  show ?case
  proof (cases r)
    case None
    then show ?thesis by simp
  next
    case (Some a)
    with Cons show ?thesis by simp
  qed
qed

lemma filterRelevant_kept:
  "filterRelevant cfg rs = Inr kept \<Longrightarrow>
     None \<notin> set rs \<and> kept = filter (isRelevant cfg) (map the rs)"
  using filterRelevant_Inl [of rs cfg] filterRelevant_Inr [of rs cfg] by (cases "None \<in> set rs") auto

lemma analyzeBatch_relevant:
  "a \<in> set (fst (analyzeBatch cfg JSON_parse reply k n)) \<Longrightarrow> isRelevant cfg a"
  by (auto simp: analyzeBatch_def split: sum.splits option.splits dest!: filterRelevant_kept)

lemma batch_index: "k * batchSize < length articles \<longleftrightarrow> k < batchCount articles"
  by (auto simp: batchCount_def batchSize_def)

lemma analyzeLoop_batches:
  "analyzeLoop cfg create JSON_parse articles (k * batchSize) st =
     (fst st @ concat (map (\<lambda>m. fst (batchResult cfg create JSON_parse articles m))
                        [k..<batchCount articles]),
      snd st @ concat (map (\<lambda>m. snd (batchResult cfg create JSON_parse articles m))
                        [k..<batchCount articles]))"
proof (induction "batchCount articles - k" arbitrary: k st)
  case 0
  then have "\<not> k * batchSize < length articles" by (simp add: batch_index)
  moreover have "[k..<batchCount articles] = []" using 0 by simp
  ultimately show ?case by (subst analyzeLoop.simps) (simp only: if_False list.map concat.simps append_Nil2 prod.collapse)
next
  case (Suc d)
  then have lt: "k < batchCount articles" and d: "d = batchCount articles - Suc k" by simp_all
  have run: "k * batchSize < length articles" using lt by (simp add: batch_index)
  have idx: "k * batchSize div batchSize = k" by (simp add: batchSize_def)
  have nxt: "k * batchSize + batchSize = Suc k * batchSize" by simp
  have upt: "[k..<batchCount articles] = k # [Suc k..<batchCount articles]"
    using lt by (simp add: upt_conv_Cons)
  show ?case
    apply (subst analyzeLoop.simps)
    apply (simp only: run if_True Let_def idx nxt split_beta)
    apply (subst Suc.hyps(1) [OF d])
    apply (simp add: upt batchResult_def batchAt_def)
    done
qed

lemma analyzeLoop_all:
  "analyzeLoop cfg create JSON_parse articles 0 ([], []) =
     (concat (map (\<lambda>m. fst (batchResult cfg create JSON_parse articles m))
                [0..<batchCount articles]),
      concat (map (\<lambda>m. snd (batchResult cfg create JSON_parse articles m))
                [0..<batchCount articles]))"
  using analyzeLoop_batches [of cfg create JSON_parse articles 0 "([], [])"] by simp

lemma analyzed_relevant:
  "a \<in> set (fst (analyzeLoop cfg create JSON_parse articles 0 ([], []))) \<Longrightarrow> isRelevant cfg a"
  by (auto simp: analyzeLoop_all batchResult_def dest: analyzeBatch_relevant)

lemma mset_insertBy: "mset (insertBy cmp x ys) = add_mset x (mset ys)"
  by (induction ys) simp_all

lemma mset_js_sort: "mset (js_sort cmp xs) = mset xs"
  by (induction xs) (simp_all add: js_sort_def mset_insertBy)

lemma set_js_sort: "set (js_sort cmp xs) = set xs"
  by (metis mset_js_sort set_mset_mset)

lemma length_js_sort: "length (js_sort cmp xs) = length xs"
  by (metis mset_js_sort size_mset)

lemma insertBy_insort_key:
  "score x \<noteq> None \<Longrightarrow> \<forall>y \<in> set ys. score y \<noteq> None \<Longrightarrow>
     insertBy compareFn x ys = insort_key scoreKey x ys"
  by (induction ys) (auto simp: compareFn_def cmpValue_def scoreKey_def)

lemma js_sort_sort_key:
  "\<forall>a \<in> set xs. score a \<noteq> None \<Longrightarrow> js_sort compareFn xs = sort_key scoreKey xs"
proof (induction xs)
  case Nil
  then show ?case by (simp add: js_sort_def)
next
  case (Cons x xs)
  then have IH: "js_sort compareFn xs = sort_key scoreKey xs" by simp
  have "insertBy compareFn x (sort_key scoreKey xs) = insort_key scoreKey x (sort_key scoreKey xs)"
    using Cons.prems by (intro insertBy_insort_key) simp_all
  then show ?case using IH by (simp add: js_sort_def)
qed

lemma js_sort_descending:
  assumes "\<forall>a \<in> set xs. score a \<noteq> None"
  shows "sorted_wrt ranksAtLeast (js_sort compareFn xs)"
proof -
  have "sorted (map scoreKey (sort_key scoreKey xs))" by (rule sorted_sort_key)
  then have "sorted_wrt (\<lambda>a b. scoreKey a \<le> scoreKey b) (js_sort compareFn xs)"
    by (simp add: js_sort_sort_key [OF assms] sorted_map)
  moreover have "\<And>a b. a \<in> set (js_sort compareFn xs) \<Longrightarrow> b \<in> set (js_sort compareFn xs) \<Longrightarrow>
      scoreKey a \<le> scoreKey b \<Longrightarrow> ranksAtLeast a b"
    using assms by (auto simp: set_js_sort scoreKey_def ranksAtLeast_def split: option.splits)
  ultimately show ?thesis by (rule sorted_wrt_mono_rel [rotated])
qed

lemma js_sort_stable:
  assumes "\<forall>a \<in> set xs. score a \<noteq> None"
  shows "filter (\<lambda>a. score a = Some s) (js_sort compareFn xs) = filter (\<lambda>a. score a = Some s) xs"
proof -
  have key: "\<And>a. a \<in> set xs \<Longrightarrow> (score a = Some s) = (scoreKey a = - s)"
    using assms by (auto simp: scoreKey_def)
  have "filter (\<lambda>a. score a = Some s) (sort_key scoreKey xs) =
      filter (\<lambda>a. scoreKey a = - s) (sort_key scoreKey xs)"
    by (rule filter_cong) (simp_all add: key)
  also have "\<dots> = filter (\<lambda>a. scoreKey a = - s) xs" by (rule sort_key_stable)
  also have "\<dots> = filter (\<lambda>a. score a = Some s) xs"
    by (rule filter_cong) (simp_all add: key)
  finally show ?thesis by (simp add: js_sort_sort_key [OF assms])
qed

lemma ex_match: "jsonMatch ex_response = Some ex_block"
  by (simp add: jsonMatch_def ex_response_def ex_block_def)

lemma ex_parse_block: "ex_JSON_parse ex_block = Inr ex_results"
  by (simp add: ex_JSON_parse_def)

lemma ex_parse_block16: "ex_JSON_parse ex_block16 = Inr ex_results16"
  by (simp add: ex_JSON_parse_def ex_block_def ex_block16_def ex_null_block_def)

lemma ex_parse_bare_block: "ex_JSON_parse ex_bare_block = Inr [Some (ex_rec 7 None None)]"
  by (simp add: ex_JSON_parse_def ex_block_def ex_block16_def ex_bare_block_def ex_null_block_def)

lemma ex_bare_match: "jsonMatch ex_bare_response = Some ex_bare_block"
  by (simp add: jsonMatch_def ex_bare_response_def ex_bare_block_def)

lemma ex_filter:
  "filterRelevant (CONFIG None) ex_results = Inr [ex_full 8 ''C'' [''Regulatory''] None]"
  by (simp add: ex_results_def ex_rec_def ex_full_def isRelevant_def js_truthy_def js_ge_def
      CONFIG_def)

lemma ex_batchCount: "batchCount ex_articles = 1"
  by (simp add: batchCount_def batchSize_def ex_articles_def)

lemma ex_analyzed:
  "fst (analyzeLoop (CONFIG None)
         (ex_create ex_response) ex_JSON_parse
         ex_articles 0 ([], [])) = [ex_full 8 ''C'' [''Regulatory''] None]"
  by (simp add: analyzeLoop_all ex_batchCount batchResult_def analyzeBatch_def ex_create_def
      responseText_def ex_match ex_parse_block ex_filter)

lemma ex_digest:
  "fst (analyzeWithClaude (CONFIG None)
         (ex_create ex_response) ex_JSON_parse
         ex_articles) = [ex_full 8 ''C'' [''Regulatory''] None]"
proof -
  have "fst (analyzeWithClaude (CONFIG None) (ex_create ex_response) ex_JSON_parse ex_articles) =
      sortAndSlice (CONFIG None) [ex_full 8 ''C'' [''Regulatory''] None]"
    by (simp add: analyzeWithClaude_def Let_def ex_analyzed)
  then show ?thesis by (simp add: sortAndSlice_def js_sort_def CONFIG_def)
qed

lemma isRelevant_iff:
  "isRelevant cfg r \<longleftrightarrow> skip r \<noteq> Some True \<and> (\<exists>s. score r = Some s \<and> minRelevanceScore cfg \<le> s)"
  by (auto simp: isRelevant_def js_truthy_def js_ge_def split: option.splits)

lemma filterRelevant_Some:
  "filterRelevant cfg rs = Inr kept \<Longrightarrow>
     map Some kept =
       filter (\<lambda>x. \<exists>r s. x = Some r \<and> skip r \<noteq> Some True \<and> score r = Some s
                       \<and> minRelevanceScore cfg \<le> s) rs"
proof (induction rs arbitrary: kept)
  case Nil
  then show ?case by simp
next
  case (Cons x rs)
  show ?case
  proof (cases x)
    case None
    with Cons.prems show ?thesis by simp
  next
    case (Some r)
    with Cons.prems obtain kept' where
      rest: "filterRelevant cfg rs = Inr kept'" and
      kept: "kept = (if isRelevant cfg r then r # kept' else kept')"
      by (auto split: sum.splits)
    have "isRelevant cfg r \<longleftrightarrow>
        (\<exists>r' s. Some r = Some r' \<and> skip r' \<noteq> Some True \<and> score r' = Some s
                 \<and> minRelevanceScore cfg \<le> s)"
      by (simp add: isRelevant_iff)
    then show ?thesis using Cons.IH [OF rest] Some kept by simp
  qed
qed

lemma digest_subset_analyzed:
  "set (fst (analyzeWithClaude cfg create JSON_parse articles))
     \<subseteq> set (fst (analyzeLoop cfg create JSON_parse articles 0 ([], [])))"
proof -
  have "set (take (maxArticlesInBrief cfg)
          (js_sort compareFn (fst (analyzeLoop cfg create JSON_parse articles 0 ([], [])))))
        \<subseteq> set (js_sort compareFn (fst (analyzeLoop cfg create JSON_parse articles 0 ([], []))))"
    by (rule set_take_subset)
  then show ?thesis
    by (simp add: analyzeWithClaude_def Let_def sortAndSlice_def set_js_sort)
qed

subsection \<open>The relevance threshold\<close>

text \<open>
  C1.  Every record the analyzer collects, and so every record of the digest it returns,
  has a score at or above \<open>minRelevanceScore\<close> and is not marked skip.  The filter of a
  batch keeps exactly the parsed records with these two properties, whole and in order,
  whether or not the judge marked a low score as skip.
\<close>

theorem threshold_enforced_locally:
  "(\<forall>a \<in> set (fst (analyzeLoop cfg create JSON_parse articles 0 ([], []))).
      skip a \<noteq> Some True \<and> (\<exists>s. score a = Some s \<and> minRelevanceScore cfg \<le> s))
   \<and> (\<forall>a \<in> set (fst (analyzeWithClaude cfg create JSON_parse articles)).
      skip a \<noteq> Some True \<and> (\<exists>s. score a = Some s \<and> minRelevanceScore cfg \<le> s))
   \<and> (\<forall>relevant. filterRelevant cfg results = Inr relevant \<longrightarrow>
        map Some relevant =
          filter (\<lambda>x. \<exists>r s. x = Some r \<and> skip r \<noteq> Some True \<and> score r = Some s
                          \<and> minRelevanceScore cfg \<le> s) results)"
proof -
  have acc: "\<forall>a \<in> set (fst (analyzeLoop cfg create JSON_parse articles 0 ([], []))).
      skip a \<noteq> Some True \<and> (\<exists>s. score a = Some s \<and> minRelevanceScore cfg \<le> s)"
    using analyzed_relevant by (simp add: isRelevant_iff [symmetric])
  have out: "\<forall>a \<in> set (fst (analyzeWithClaude cfg create JSON_parse articles)).
      skip a \<noteq> Some True \<and> (\<exists>s. score a = Some s \<and> minRelevanceScore cfg \<le> s)"
    using acc digest_subset_analyzed by blast
  have batch: "\<forall>relevant. filterRelevant cfg results = Inr relevant \<longrightarrow>
        map Some relevant =
          filter (\<lambda>x. \<exists>r s. x = Some r \<and> skip r \<noteq> Some True \<and> score r = Some s
                          \<and> minRelevanceScore cfg \<le> s) results"
    using filterRelevant_Some by blast
  show ?thesis using acc out batch by blast
qed

theorem threshold_enforced_locally_witness:
  "filterRelevant (CONFIG None) ex_results = Inr [ex_full 8 ''C'' [''Regulatory''] None]
   \<and> fst (analyzeWithClaude (CONFIG None) (ex_create ex_response) ex_JSON_parse ex_articles) =
       [ex_full 8 ''C'' [''Regulatory''] None]
   \<and> list_all (\<lambda>a. skip a \<noteq> Some True \<and> (\<exists>s. score a = Some s \<and> 5 \<le> s))
       (fst (analyzeWithClaude (CONFIG None) (ex_create ex_response) ex_JSON_parse ex_articles))
   \<and> [Some (ex_full 8 ''C'' [''Regulatory''] None)] =
       filter (\<lambda>x. \<exists>r s. x = Some r \<and> skip r \<noteq> Some True \<and> score r = Some s \<and> 5 \<le> s)
         ex_results"
proof -
  have "map Some [ex_full 8 ''C'' [''Regulatory''] None] =
       filter (\<lambda>x. \<exists>r s. x = Some r \<and> skip r \<noteq> Some True \<and> score r = Some s
                       \<and> minRelevanceScore (CONFIG None) \<le> s) ex_results"
    using threshold_enforced_locally
      [of "CONFIG None" "ex_create ex_response" ex_JSON_parse ex_articles ex_results] ex_filter
    by blast
  then have batch: "[Some (ex_full 8 ''C'' [''Regulatory''] None)] =
       filter (\<lambda>x. \<exists>r s. x = Some r \<and> skip r \<noteq> Some True \<and> score r = Some s \<and> 5 \<le> s)
         ex_results"
    by (simp add: CONFIG_def)
  have "list_all (\<lambda>a. skip a \<noteq> Some True
          \<and> (\<exists>s. score a = Some s \<and> minRelevanceScore (CONFIG None) \<le> s))
       (fst (analyzeWithClaude (CONFIG None) (ex_create ex_response) ex_JSON_parse ex_articles))"
    using threshold_enforced_locally
      [of "CONFIG None" "ex_create ex_response" ex_JSON_parse ex_articles ex_results]
    by (simp add: list_all_iff)
  then have "list_all (\<lambda>a. skip a \<noteq> Some True \<and> (\<exists>s. score a = Some s \<and> 5 \<le> s))
       (fst (analyzeWithClaude (CONFIG None) (ex_create ex_response) ex_JSON_parse ex_articles))"
    by (simp add: CONFIG_def)
  then show ?thesis using ex_filter ex_digest batch by simp
qed

subsection \<open>Ranking and truncation\<close>

text \<open>
  C5.  For records that carry a score, the sort yields a permutation in descending order
  of score in which records of equal score keep their order, and the result of
  \<open>sortAndSlice\<close> is its first \<open>maxArticlesInBrief\<close> records; the digest returned
  by \<open>analyzeWithClaude\<close> is \<open>sortAndSlice\<close> of the collected records and has at
  most \<open>maxArticlesInBrief\<close> of them.
\<close>

theorem ranked_by_score_stable_truncated:
  assumes "\<forall>a \<in> set analyzed. score a \<noteq> None"
  shows "sorted_wrt ranksAtLeast (js_sort compareFn analyzed)
       \<and> mset (js_sort compareFn analyzed) = mset analyzed
       \<and> (\<forall>s. filter (\<lambda>a. score a = Some s) (js_sort compareFn analyzed) =
               filter (\<lambda>a. score a = Some s) analyzed)
       \<and> sortAndSlice cfg analyzed = take (maxArticlesInBrief cfg) (js_sort compareFn analyzed)
       \<and> sorted_wrt ranksAtLeast (sortAndSlice cfg analyzed)
       \<and> length (sortAndSlice cfg analyzed) = min (maxArticlesInBrief cfg) (length analyzed)
       \<and> length (sortAndSlice cfg analyzed) \<le> maxArticlesInBrief cfg
       \<and> fst (analyzeWithClaude cfg create JSON_parse articles) =
           sortAndSlice cfg (fst (analyzeLoop cfg create JSON_parse articles 0 ([], [])))
       \<and> length (fst (analyzeWithClaude cfg create JSON_parse articles)) \<le> maxArticlesInBrief cfg
       \<and> sorted_wrt ranksAtLeast (fst (analyzeWithClaude cfg create JSON_parse articles))"
proof -
  have desc: "sorted_wrt ranksAtLeast (js_sort compareFn analyzed)"
    using assms by (rule js_sort_descending)
  have perm: "mset (js_sort compareFn analyzed) = mset analyzed"
    by (rule mset_js_sort)
  have stable: "\<forall>s. filter (\<lambda>a. score a = Some s) (js_sort compareFn analyzed) =
               filter (\<lambda>a. score a = Some s) analyzed"
    using js_sort_stable [OF assms] by blast
  have cut: "sortAndSlice cfg analyzed = take (maxArticlesInBrief cfg) (js_sort compareFn analyzed)"
    by (simp add: sortAndSlice_def)
  have "sorted_wrt ranksAtLeast (take (maxArticlesInBrief cfg) (js_sort compareFn analyzed))"
    using desc by (rule sorted_wrt_take)
  then have desc_cut: "sorted_wrt ranksAtLeast (sortAndSlice cfg analyzed)"
    by (simp add: cut)
  have len: "length (sortAndSlice cfg analyzed) = min (maxArticlesInBrief cfg) (length analyzed)"
    by (simp add: cut length_js_sort min.commute)
  have run: "fst (analyzeWithClaude cfg create JSON_parse articles) =
           sortAndSlice cfg (fst (analyzeLoop cfg create JSON_parse articles 0 ([], [])))"
    by (simp add: analyzeWithClaude_def Let_def)
  have run_len: "length (fst (analyzeWithClaude cfg create JSON_parse articles))
      \<le> maxArticlesInBrief cfg"
    by (simp add: run sortAndSlice_def)
  have "\<forall>a \<in> set (fst (analyzeLoop cfg create JSON_parse articles 0 ([], []))). score a \<noteq> None"
  proof
    fix a
    assume "a \<in> set (fst (analyzeLoop cfg create JSON_parse articles 0 ([], [])))"
    then have "isRelevant cfg a" by (rule analyzed_relevant)
    then show "score a \<noteq> None" by (auto simp: isRelevant_iff)
  qed
  then have "sorted_wrt ranksAtLeast
      (js_sort compareFn (fst (analyzeLoop cfg create JSON_parse articles 0 ([], []))))"
    by (rule js_sort_descending)
  then have "sorted_wrt ranksAtLeast (take (maxArticlesInBrief cfg)
      (js_sort compareFn (fst (analyzeLoop cfg create JSON_parse articles 0 ([], [])))))"
    by (rule sorted_wrt_take)
  then have run_desc: "sorted_wrt ranksAtLeast
      (fst (analyzeWithClaude cfg create JSON_parse articles))"
    by (simp add: run sortAndSlice_def)
  show ?thesis using desc perm stable cut desc_cut len run run_len run_desc by simp
qed

theorem ranked_by_score_stable_truncated_witness:
  "list_all (\<lambda>a. score a \<noteq> None)
     [ex_rec 3 None (Some ''a''), ex_rec 9 None (Some ''b''), ex_rec 9 None (Some ''c''),
      ex_rec 5 None (Some ''d'')]
   \<and> sortAndSlice (CONFIG None)
       [ex_rec 3 None (Some ''a''), ex_rec 9 None (Some ''b''), ex_rec 9 None (Some ''c''),
        ex_rec 5 None (Some ''d'')] =
     [ex_rec 9 None (Some ''b''), ex_rec 9 None (Some ''c''), ex_rec 5 None (Some ''d''),
      ex_rec 3 None (Some ''a'')]
   \<and> sortAndSlice ((CONFIG None)\<lparr>maxArticlesInBrief := 2\<rparr>)
       [ex_rec 3 None (Some ''a''), ex_rec 9 None (Some ''b''), ex_rec 9 None (Some ''c''),
        ex_rec 5 None (Some ''d'')] =
     [ex_rec 9 None (Some ''b''), ex_rec 9 None (Some ''c'')]
   \<and> length (sortAndSlice ((CONFIG None)\<lparr>maxArticlesInBrief := 2\<rparr>)
       [ex_rec 3 None (Some ''a''), ex_rec 9 None (Some ''b''), ex_rec 9 None (Some ''c''),
        ex_rec 5 None (Some ''d'')]) \<le> 2"
proof -
  let ?xs = "[ex_rec 3 None (Some ''a''), ex_rec 9 None (Some ''b''), ex_rec 9 None (Some ''c''),
      ex_rec 5 None (Some ''d'')]"
  have scored: "\<forall>a \<in> set ?xs. score a \<noteq> None" by (simp add: ex_rec_def)
  have all: "list_all (\<lambda>a. score a \<noteq> None) ?xs" by (simp add: ex_rec_def)
  have full: "sortAndSlice (CONFIG None) ?xs =
     [ex_rec 9 None (Some ''b''), ex_rec 9 None (Some ''c''), ex_rec 5 None (Some ''d''),
      ex_rec 3 None (Some ''a'')]"
    by (simp add: sortAndSlice_def js_sort_def compareFn_def cmpValue_def ex_rec_def CONFIG_def)
  have two: "sortAndSlice ((CONFIG None)\<lparr>maxArticlesInBrief := 2\<rparr>) ?xs =
     [ex_rec 9 None (Some ''b''), ex_rec 9 None (Some ''c'')]"
    by (simp add: sortAndSlice_def js_sort_def compareFn_def cmpValue_def ex_rec_def CONFIG_def)
  have "length (sortAndSlice ((CONFIG None)\<lparr>maxArticlesInBrief := 2\<rparr>) ?xs)
      \<le> maxArticlesInBrief ((CONFIG None)\<lparr>maxArticlesInBrief := 2\<rparr>)"
    using ranked_by_score_stable_truncated [OF scored] by blast
  then have len: "length (sortAndSlice ((CONFIG None)\<lparr>maxArticlesInBrief := 2\<rparr>) ?xs) \<le> 2"
    by simp
  show ?thesis using all full two len by simp
qed

lemma dropWhile_to_bracket:
  "c \<notin> set pre \<Longrightarrow> dropWhile (\<lambda>x. x \<noteq> c) (pre @ c # rest) = c # rest"
  by (induction pre) auto

lemma jsonMatch_embedded:
  assumes "CHR ''['' \<notin> set pre" and "CHR '']'' \<notin> set post"
  shows "jsonMatch (pre @ (CHR ''['' # body @ [CHR '']'']) @ post) = Some (CHR ''['' # body @ [CHR '']''])"
proof -
  have front: "dropWhile (\<lambda>c. c \<noteq> CHR ''['') (pre @ (CHR ''['' # body @ [CHR '']'']) @ post) =
      CHR ''['' # (body @ CHR '']'' # post)"
    using dropWhile_to_bracket [OF assms(1), of "body @ CHR '']'' # post"] by simp
  have "CHR '']'' \<notin> set (rev post)" using assms(2) by simp
  then have "dropWhile (\<lambda>c. c \<noteq> CHR '']'') (rev post @ CHR '']'' # rev body) =
      CHR '']'' # rev body"
    by (rule dropWhile_to_bracket)
  then have "dropWhile (\<lambda>c. c \<noteq> CHR '']'') (rev (body @ CHR '']'' # post)) =
      CHR '']'' # rev body"
    by simp
  then have trimmed: "rev (dropWhile (\<lambda>c. c \<noteq> CHR '']'') (rev (body @ CHR '']'' # post))) =
      body @ [CHR '']'']"
    by simp
  show ?thesis
    unfolding jsonMatch_def front
    by (simp only: list.case trimmed) (cases "body @ [CHR '']'']"; simp)
qed

subsection \<open>The array in the reply\<close>

text \<open>
  C2 (as amended).  When the text before an array-shaped block holds no \<open>[\<close> and the text
  after it no \<open>]\<close>, the match is exactly the block, the batch is analyzed as if the reply
  were the block alone, and a block that parses yields its relevant records.
\<close>

theorem embedded_block_parsed:
  assumes "CHR ''['' \<notin> set pre" and "CHR '']'' \<notin> set post"
    and "block = CHR ''['' # body @ [CHR '']'']"
  shows "jsonMatch (pre @ block @ post) = Some block
       \<and> analyzeBatch cfg JSON_parse (Inr (TextBlock (pre @ block @ post) # others)) k n =
           analyzeBatch cfg JSON_parse (Inr [TextBlock block]) k n
       \<and> (\<forall>results. JSON_parse block = Inr results \<and> None \<notin> set results \<longrightarrow>
            fst (analyzeBatch cfg JSON_parse (Inr (TextBlock (pre @ block @ post) # others)) k n) =
              filter (isRelevant cfg) (map the results))"
proof -
  have found: "jsonMatch (pre @ block @ post) = Some block"
    using jsonMatch_embedded [OF assms(1,2)] by (simp add: assms(3))
  have clean: "jsonMatch block = Some block"
    using jsonMatch_embedded [of "[]" "[]" body] by (simp add: assms(3))
  have same: "analyzeBatch cfg JSON_parse (Inr (TextBlock (pre @ block @ post) # others)) k n =
           analyzeBatch cfg JSON_parse (Inr [TextBlock block]) k n"
    by (simp add: analyzeBatch_def responseText_def found clean)
  have parsed: "\<forall>results. JSON_parse block = Inr results \<and> None \<notin> set results \<longrightarrow>
            fst (analyzeBatch cfg JSON_parse (Inr (TextBlock (pre @ block @ post) # others)) k n) =
              filter (isRelevant cfg) (map the results)"
    by (simp add: analyzeBatch_def responseText_def found filterRelevant_Inr)
  show ?thesis using found same parsed by blast
qed

theorem embedded_block_parsed_witness:
  "jsonMatch ex_response = Some ex_block
   \<and> analyzeBatch (CONFIG None) ex_JSON_parse (Inr [TextBlock ex_response]) 1 3 =
       analyzeBatch (CONFIG None) ex_JSON_parse (Inr [TextBlock ex_block]) 1 3
   \<and> analyzeBatch (CONFIG None) ex_JSON_parse (Inr [TextBlock ex_response]) 1 3 =
       ([ex_full 8 ''C'' [''Regulatory''] None], [LogBatch 1 1 3])"
proof -
  have pre: "CHR ''['' \<notin> set ''Here is the analysis: ''" by simp
  have post: "CHR '']'' \<notin> set '' Done.''" by simp
  have shape: "ex_block = CHR ''['' # butlast (tl ex_block) @ [CHR '']'']"
    by (simp add: ex_block_def)
  note e = embedded_block_parsed [OF pre post shape, of "CONFIG None" ex_JSON_parse "[]" 1 3]
  have found: "jsonMatch ex_response = Some ex_block"
    using e by (simp add: ex_response_def)
  have same: "analyzeBatch (CONFIG None) ex_JSON_parse (Inr [TextBlock ex_response]) 1 3 =
       analyzeBatch (CONFIG None) ex_JSON_parse (Inr [TextBlock ex_block]) 1 3"
    using e by (simp add: ex_response_def)
  have val: "analyzeBatch (CONFIG None) ex_JSON_parse (Inr [TextBlock ex_response]) 1 3 =
       ([ex_full 8 ''C'' [''Regulatory''] None], [LogBatch 1 1 3])"
    by (simp add: analyzeBatch_def responseText_def ex_match ex_parse_block ex_filter)
  show ?thesis using found same val by simp
qed

lemma ex_parse_bracketed_match: "ex_JSON_parse ex_bracketed_match = Inl SyntaxError"
  by (simp add: ex_JSON_parse_def ex_bracketed_match_def ex_block_def ex_block16_def ex_bare_block_def
      ex_null_block_def)

text \<open>
  C2 as stated fails: the match runs from the first \<open>[\<close> of the reply to its last
  \<open>]\<close>.  With a bracket in the prose ahead of a well-formed block, the text handed to the
  parser is not the block; it is no JSON text, and the batch yields nothing, while the
  block alone yields its record.
\<close>

theorem prose_bracket_counterexample:
  "jsonMatch ex_bracketed = Some ex_bracketed_match
   \<and> jsonMatch ex_bracketed \<noteq> Some ex_block
   \<and> analyzeBatch (CONFIG None) ex_JSON_parse (Inr [TextBlock ex_bracketed]) 1 3 =
       ([], [LogBatchError SyntaxError])
   \<and> analyzeBatch (CONFIG None) ex_JSON_parse (Inr [TextBlock ex_block]) 1 3 =
       ([ex_full 8 ''C'' [''Regulatory''] None], [LogBatch 1 1 3])"
proof -
  have found: "jsonMatch ex_bracketed = Some ex_bracketed_match"
    by (simp add: jsonMatch_def ex_bracketed_def ex_bracketed_match_def ex_block_def)
  have other: "jsonMatch ex_bracketed \<noteq> Some ex_block"
    by (simp add: found ex_bracketed_match_def)
  have clean: "jsonMatch ex_block = Some ex_block"
    by (simp add: jsonMatch_def ex_block_def)
  have lost: "analyzeBatch (CONFIG None) ex_JSON_parse (Inr [TextBlock ex_bracketed]) 1 3 =
       ([], [LogBatchError SyntaxError])"
    by (simp add: analyzeBatch_def responseText_def found ex_parse_bracketed_match)
  have kept: "analyzeBatch (CONFIG None) ex_JSON_parse (Inr [TextBlock ex_block]) 1 3 =
       ([ex_full 8 ''C'' [''Regulatory''] None], [LogBatch 1 1 3])"
    by (simp add: analyzeBatch_def responseText_def clean ex_parse_block ex_filter)
  show ?thesis using found other lost kept by simp
qed

lemma batchResult_in_analyzed:
  "k < batchCount articles \<Longrightarrow>
     set (fst (batchResult cfg create JSON_parse articles k))
       \<subseteq> set (fst (analyzeLoop cfg create JSON_parse articles 0 ([], [])))"
  by (auto simp: analyzeLoop_all)

lemma short_list_kept:
  "length analyzed \<le> maxArticlesInBrief cfg \<Longrightarrow> set (sortAndSlice cfg analyzed) = set analyzed"
  by (simp add: sortAndSlice_def length_js_sort set_js_sort)

subsection \<open>Records are not validated\<close>

text \<open>
  C10 (as amended).  A record of a parsed array without \<^verbatim>\<open>null\<close> elements, with a
  falsy skip and a score at or above \<open>minRelevanceScore\<close>, is among the collected
  records as it was parsed, whatever its other fields hold; it is in the returned digest
  whenever the collected records number at most \<open>maxArticlesInBrief\<close>.
\<close>

theorem relevant_record_kept_unvalidated:
  assumes "k < batchCount articles"
    and "create k (batchAt articles k) = Inr blocks"
    and "responseText blocks = Inr text"
    and "jsonMatch text = Some m"
    and "JSON_parse m = Inr results"
    and "None \<notin> set results"
    and "Some r \<in> set results"
    and "\<not> js_truthy (skip r)"
    and "score r = Some s"
    and "minRelevanceScore cfg \<le> s"
  shows "r \<in> set (fst (analyzeLoop cfg create JSON_parse articles 0 ([], [])))
       \<and> (length (fst (analyzeLoop cfg create JSON_parse articles 0 ([], [])))
             \<le> maxArticlesInBrief cfg
           \<longrightarrow> r \<in> set (fst (analyzeWithClaude cfg create JSON_parse articles)))"
proof -
  have rel: "isRelevant cfg r"
    using assms(8,9,10) by (simp add: isRelevant_def js_ge_def)
  have "fst (batchResult cfg create JSON_parse articles k) =
      filter (isRelevant cfg) (map the results)"
    by (simp add: batchResult_def analyzeBatch_def assms(2,3,4,5) filterRelevant_Inr [OF assms(6)])
  moreover have "r \<in> set (map the results)"
    using assms(7) by force
  ultimately have "r \<in> set (fst (batchResult cfg create JSON_parse articles k))"
    using rel by simp
  then have acc: "r \<in> set (fst (analyzeLoop cfg create JSON_parse articles 0 ([], [])))"
    using batchResult_in_analyzed [OF assms(1)] by blast
  have "length (fst (analyzeLoop cfg create JSON_parse articles 0 ([], [])))
             \<le> maxArticlesInBrief cfg
        \<Longrightarrow> r \<in> set (fst (analyzeWithClaude cfg create JSON_parse articles))"
    using acc by (simp add: analyzeWithClaude_def Let_def short_list_kept)
  then show ?thesis using acc by blast
qed

theorem relevant_record_kept_unvalidated_witness:
  "0 < batchCount ex_articles
   \<and> ex_create ex_bare_response 0 (batchAt ex_articles 0) = Inr [TextBlock ex_bare_response]
   \<and> responseText [TextBlock ex_bare_response] = Inr ex_bare_response
   \<and> jsonMatch ex_bare_response = Some ex_bare_block
   \<and> ex_JSON_parse ex_bare_block = Inr [Some (ex_rec 7 None None)]
   \<and> \<not> js_truthy (skip (ex_rec 7 None None))
   \<and> score (ex_rec 7 None None) = Some 7
   \<and> minRelevanceScore (CONFIG None) \<le> 7
   \<and> a_title (ex_rec 7 None None) = None
   \<and> tags (ex_rec 7 None None) = None
   \<and> url (ex_rec 7 None None) = None
   \<and> length (fst (analyzeLoop (CONFIG None) (ex_create ex_bare_response) ex_JSON_parse
         ex_articles 0 ([], []))) \<le> maxArticlesInBrief (CONFIG None)
   \<and> ex_rec 7 None None \<in> set (fst (analyzeWithClaude (CONFIG None)
         (ex_create ex_bare_response) ex_JSON_parse ex_articles))"
proof -
  have h1: "0 < batchCount ex_articles" by (simp add: ex_batchCount)
  have h2: "ex_create ex_bare_response 0 (batchAt ex_articles 0) = Inr [TextBlock ex_bare_response]"
    by (simp add: ex_create_def)
  have h3: "responseText [TextBlock ex_bare_response] = Inr ex_bare_response"
    by (simp add: responseText_def)
  note h4 = ex_bare_match
  note h5 = ex_parse_bare_block
  have h6: "None \<notin> set [Some (ex_rec 7 None None)]" by simp
  have h7: "Some (ex_rec 7 None None) \<in> set [Some (ex_rec 7 None None)]" by simp
  have h8: "\<not> js_truthy (skip (ex_rec 7 None None))" by (simp add: js_truthy_def ex_rec_def)
  have h9: "score (ex_rec 7 None None) = Some 7" by (simp add: ex_rec_def)
  have h10: "minRelevanceScore (CONFIG None) \<le> 7" by (simp add: CONFIG_def)
  have missing: "a_title (ex_rec 7 None None) = None \<and> tags (ex_rec 7 None None) = None
      \<and> url (ex_rec 7 None None) = None"
    by (simp add: ex_rec_def)
  note kept = relevant_record_kept_unvalidated
    [where create = "ex_create ex_bare_response" and JSON_parse = ex_JSON_parse
       and articles = ex_articles and k = 0 and cfg = "CONFIG None",
     OF h1 h2 h3 h4 h5 h6 h7 h8 h9 h10]
  have "fst (analyzeLoop (CONFIG None) (ex_create ex_bare_response) ex_JSON_parse
         ex_articles 0 ([], [])) = [ex_rec 7 None None]"
    by (simp add: analyzeLoop_all ex_batchCount batchResult_def analyzeBatch_def ex_create_def
        responseText_def ex_bare_match ex_parse_bare_block isRelevant_def js_truthy_def js_ge_def
        h9 CONFIG_def ex_rec_def)
  then have short: "length (fst (analyzeLoop (CONFIG None) (ex_create ex_bare_response)
      ex_JSON_parse ex_articles 0 ([], []))) \<le> maxArticlesInBrief (CONFIG None)"
    by (simp add: CONFIG_def)
  have digest: "ex_rec 7 None None \<in> set (fst (analyzeWithClaude (CONFIG None)
         (ex_create ex_bare_response) ex_JSON_parse ex_articles))"
    using kept short by blast
  show ?thesis using h1 h2 h3 h4 h5 h8 h9 h10 missing short digest by simp
qed

lemma ex_parse_null_block:
  "ex_JSON_parse ex_null_block = Inr [Some (ex_rec 9 None None), None]"
  by (simp add: ex_JSON_parse_def ex_block_def ex_block16_def ex_bare_block_def ex_null_block_def)

lemma ex_null_match: "jsonMatch ex_null_block = Some ex_null_block"
  by (simp add: jsonMatch_def ex_null_block_def)

lemma ex_analyzed16:
  "fst (analyzeLoop (CONFIG None) (ex_create ex_block16) ex_JSON_parse ex_articles 0 ([], [])) =
     replicate 15 (ex_rec 9 None None) @ [ex_rec 5 None None]"
proof -
  have found: "jsonMatch ex_block16 = Some ex_block16"
    by (simp add: jsonMatch_def ex_block16_def)
  have kept: "filterRelevant (CONFIG None) ex_results16 =
      Inr (replicate 15 (ex_rec 9 None None) @ [ex_rec 5 None None])"
    by (simp add: ex_results16_def eval_nat_numeral isRelevant_def js_truthy_def js_ge_def
        CONFIG_def ex_rec_def)
  show ?thesis
    by (simp add: analyzeLoop_all ex_batchCount batchResult_def analyzeBatch_def ex_create_def
        responseText_def found ex_parse_block16 kept)
qed

text \<open>
  C10 as stated fails: of sixteen records that pass the filter, the one ranked last is cut
  off by the truncation to \<open>maxArticlesInBrief = 15\<close>.  Moreover a \<^verbatim>\<open>null\<close> in the
  array makes the filter throw, and the batch then adds nothing, not even its record
  with score 9.
\<close>

theorem truncated_record_counterexample:
  "ex_JSON_parse ex_block16 = Inr ex_results16
   \<and> Some (ex_rec 5 None None) \<in> set ex_results16
   \<and> \<not> js_truthy (skip (ex_rec 5 None None))
   \<and> score (ex_rec 5 None None) = Some 5
   \<and> minRelevanceScore (CONFIG None) \<le> 5
   \<and> fst (analyzeWithClaude (CONFIG None) (ex_create ex_block16) ex_JSON_parse ex_articles) =
       replicate 15 (ex_rec 9 None None)
   \<and> ex_rec 5 None None
       \<notin> set (fst (analyzeWithClaude (CONFIG None) (ex_create ex_block16) ex_JSON_parse
                   ex_articles))
   \<and> ex_JSON_parse ex_null_block = Inr [Some (ex_rec 9 None None), None]
   \<and> analyzeBatch (CONFIG None) ex_JSON_parse (Inr [TextBlock ex_null_block]) 1 3 =
       ([], [LogBatchError TypeError])"
proof -
  have dropped: "analyzeBatch (CONFIG None) ex_JSON_parse (Inr [TextBlock ex_null_block]) 1 3 =
       ([], [LogBatchError TypeError])"
    by (simp add: analyzeBatch_def responseText_def ex_null_match ex_parse_null_block)
  have member: "Some (ex_rec 5 None None) \<in> set ex_results16"
    by (simp add: ex_results16_def)
  have ok: "\<not> js_truthy (skip (ex_rec 5 None None)) \<and> score (ex_rec 5 None None) = Some 5
      \<and> minRelevanceScore (CONFIG None) \<le> 5"
    by (simp add: js_truthy_def ex_rec_def CONFIG_def)
  have "fst (analyzeWithClaude (CONFIG None) (ex_create ex_block16) ex_JSON_parse ex_articles) =
      sortAndSlice (CONFIG None) (replicate 15 (ex_rec 9 None None) @ [ex_rec 5 None None])"
    by (simp add: analyzeWithClaude_def Let_def ex_analyzed16)
  also have "\<dots> = replicate 15 (ex_rec 9 None None)"
    by (simp add: sortAndSlice_def js_sort_def eval_nat_numeral compareFn_def cmpValue_def
        ex_rec_def CONFIG_def)
  finally have digest:
    "fst (analyzeWithClaude (CONFIG None) (ex_create ex_block16) ex_JSON_parse ex_articles) =
       replicate 15 (ex_rec 9 None None)" .
  have gone: "ex_rec 5 None None
       \<notin> set (fst (analyzeWithClaude (CONFIG None) (ex_create ex_block16) ex_JSON_parse
                   ex_articles))"
    by (simp add: digest ex_rec_def)
  show ?thesis using ex_parse_block16 member ok digest gone ex_parse_null_block dropped by simp
qed

section \<open>Properties of formatEmailBrief and of a run\<close>

lemma filterThrowing_total:
  "\<forall>x \<in> set xs. p x = Inr (q x) \<Longrightarrow> filterThrowing p xs = Inr (filter q xs)"
  by (induction xs) simp_all

lemma forEachThrowing_total:
  "\<forall>x \<in> set xs. \<exists>y. f x = Inr y \<Longrightarrow>
     \<exists>ys. forEachThrowing f xs = Inr ys \<and> length ys = length xs"
proof (induction xs)
  case Nil
  then show ?case by simp
next
  case (Cons x xs)
  then obtain y ys where "f x = Inr y" and "forEachThrowing f xs = Inr ys"
      and "length ys = length xs"
    by auto
  then show ?case by simp
qed

lemma tagsInclude_total: "tags a \<noteq> None \<Longrightarrow> tagsInclude t a = Inr (hasTag t a)"
  by (auto simp: tagsInclude_def hasTag_def)

lemma marketOrJobs_total:
  "tags a \<noteq> None \<Longrightarrow> marketOrJobs a = Inr (hasTag ''Market'' a \<or> hasTag ''Jobs'' a)"
  by (simp add: marketOrJobs_def tagsInclude_total)

lemma articleEntry_total:
  "tags a \<noteq> None \<Longrightarrow> summary a \<noteq> None \<Longrightarrow> \<exists>y. articleEntry (i, a) = Inr y"
  by (auto simp: articleEntry_def)

lemma entries_total:
  assumes "\<forall>a \<in> set articles. tags a \<noteq> None \<and> summary a \<noteq> None"
  shows "\<exists>entries. forEachThrowing articleEntry (enumerate 0 articles) = Inr entries
           \<and> length entries = length articles"
proof -
  have "\<forall>p \<in> set (enumerate 0 articles). \<exists>y. articleEntry p = Inr y"
  proof
    fix p assume "p \<in> set (enumerate 0 articles)"
    then have "snd p \<in> snd ` set (enumerate 0 articles)" by (rule imageI)
    then have "snd p \<in> set (map snd (enumerate 0 articles))" by (simp only: set_map)
    then have "snd p \<in> set articles" by (simp only: map_snd_enumerate)
    then have "tags (snd p) \<noteq> None" and "summary (snd p) \<noteq> None"
      using assms by blast+
    then have "\<exists>y. articleEntry (fst p, snd p) = Inr y" by (rule articleEntry_total)
    then show "\<exists>y. articleEntry p = Inr y" by simp
  qed
  then have "\<exists>ys. forEachThrowing articleEntry (enumerate 0 articles) = Inr ys
      \<and> length ys = length (enumerate 0 articles)"
    by (rule forEachThrowing_total)
  then show ?thesis by simp
qed

subsection \<open>The renderer\<close>

text \<open>
  C7 (as amended).  On records that all carry \<open>tags\<close> and \<open>summary\<close>, as the interface
  \<open>AnalyzedArticle\<close> declares, both renderers return a document and never throw: the
  heading, a section for each tag that some record carries (a record without the tag is
  left out of that section, an empty section is left out altogether), the opportunities
  of the records that have one, and one entry per record.
\<close>

theorem renderer_total_on_tagged_records:
  assumes "\<forall>a \<in> set articles. tags a \<noteq> None \<and> summary a \<noteq> None"
  shows "(\<exists>entries. length entries = length articles
            \<and> formatEmailBrief date sources articles =
                Inr ([Header date (length articles) sources]
                     @ sectionBlocks RegulatorySignals (filter (hasTag ''Regulatory'') articles)
                     @ sectionBlocks MarketSignals (filter (hasTag ''Market'') articles)
                     @ sectionBlocks JobsSignals (filter (hasTag ''Jobs'') articles)
                     @ opportunityBlocks articles
                     @ [SelectedArticles] @ entries @ [Footer sources]))
       \<and> (\<exists>entries. length entries = length articles
            \<and> formatEmailBrief_part000 date articles =
                Inr ([HeaderPlain date (length articles)]
                     @ sectionBlocks RegulatorySignals (filter (hasTag ''Regulatory'') articles)
                     @ sectionBlocks MarketJobsSignals
                         (filter (\<lambda>a. hasTag ''Market'' a \<or> hasTag ''Jobs'' a) articles)
                     @ opportunityBlocks articles
                     @ [SelectedArticles] @ entries))"
proof -
  have tagged: "\<forall>a \<in> set articles. tags a \<noteq> None" using assms by blast
  have reg: "filterThrowing (tagsInclude ''Regulatory'') articles =
      Inr (filter (hasTag ''Regulatory'') articles)"
    using tagged by (intro filterThrowing_total) (simp add: tagsInclude_total)
  have mar: "filterThrowing (tagsInclude ''Market'') articles =
      Inr (filter (hasTag ''Market'') articles)"
    using tagged by (intro filterThrowing_total) (simp add: tagsInclude_total)
  have job: "filterThrowing (tagsInclude ''Jobs'') articles =
      Inr (filter (hasTag ''Jobs'') articles)"
    using tagged by (intro filterThrowing_total) (simp add: tagsInclude_total)
  have mj: "filterThrowing marketOrJobs articles =
      Inr (filter (\<lambda>a. hasTag ''Market'' a \<or> hasTag ''Jobs'' a) articles)"
    using tagged by (intro filterThrowing_total) (simp add: marketOrJobs_total)
  obtain entries where
    ent: "forEachThrowing articleEntry (enumerate 0 articles) = Inr entries" and
    len: "length entries = length articles"
    using entries_total [OF assms] by blast
  have first: "formatEmailBrief date sources articles =
                Inr ([Header date (length articles) sources]
                     @ sectionBlocks RegulatorySignals (filter (hasTag ''Regulatory'') articles)
                     @ sectionBlocks MarketSignals (filter (hasTag ''Market'') articles)
                     @ sectionBlocks JobsSignals (filter (hasTag ''Jobs'') articles)
                     @ opportunityBlocks articles
                     @ [SelectedArticles] @ entries @ [Footer sources])"
    unfolding formatEmailBrief_def
    by (simp only: reg mar job ent sum.case Let_def sectionBlocks_def opportunityBlocks_def)
  have second: "formatEmailBrief_part000 date articles =
                Inr ([HeaderPlain date (length articles)]
                     @ sectionBlocks RegulatorySignals (filter (hasTag ''Regulatory'') articles)
                     @ sectionBlocks MarketJobsSignals
                         (filter (\<lambda>a. hasTag ''Market'' a \<or> hasTag ''Jobs'' a) articles)
                     @ opportunityBlocks articles
                     @ [SelectedArticles] @ entries)"
    unfolding formatEmailBrief_part000_def
    by (simp only: reg mj ent sum.case Let_def sectionBlocks_def opportunityBlocks_def)
  show ?thesis using first second len by blast
qed

lemma ex_tagged_brief:
  "formatEmailBrief ''Monday'' 3 ex_tagged =
     Inr [Header ''Monday'' 2 3,
          SectionList RegulatorySignals [(''http://c'', ''C'')],
          SectionList MarketSignals [(''http://c'', ''C'')],
          OpportunityList [''advise''],
          SelectedArticles,
          ArticleEntry 1 ''C'' (Some 8) ''Regulatory, Market'' [''point''] ''why'' (Some ''advise'')
            ''http://c'',
          ArticleEntry 2 ''D'' (Some 6) ''Risk'' [''point''] ''why'' None ''http://c'',
          Footer 3]"
  by (simp add: formatEmailBrief_def ex_tagged_def ex_full_def tagsInclude_def articleEntry_def
      truthyStr_def str_def sectionLink_def)

lemma ex_tagged_brief_part000:
  "formatEmailBrief_part000 ''Monday'' ex_tagged =
     Inr [HeaderPlain ''Monday'' 2,
          SectionList RegulatorySignals [(''http://c'', ''C'')],
          SectionList MarketJobsSignals [(''http://c'', ''C'')],
          OpportunityList [''advise''],
          SelectedArticles,
          ArticleEntry 1 ''C'' (Some 8) ''Regulatory, Market'' [''point''] ''why'' (Some ''advise'')
            ''http://c'',
          ArticleEntry 2 ''D'' (Some 6) ''Risk'' [''point''] ''why'' None ''http://c'']"
  by (simp add: formatEmailBrief_part000_def ex_tagged_def ex_full_def tagsInclude_def
      marketOrJobs_def articleEntry_def truthyStr_def str_def sectionLink_def)

theorem renderer_total_on_tagged_records_witness:
  "list_all (\<lambda>a. tags a \<noteq> None \<and> summary a \<noteq> None) ex_tagged
   \<and> \<not> isl (formatEmailBrief ''Monday'' 3 ex_tagged)
   \<and> \<not> isl (formatEmailBrief_part000 ''Monday'' ex_tagged)
   \<and> formatEmailBrief ''Monday'' 3 ex_tagged =
     Inr [Header ''Monday'' 2 3,
          SectionList RegulatorySignals [(''http://c'', ''C'')],
          SectionList MarketSignals [(''http://c'', ''C'')],
          OpportunityList [''advise''],
          SelectedArticles,
          ArticleEntry 1 ''C'' (Some 8) ''Regulatory, Market'' [''point''] ''why'' (Some ''advise'')
            ''http://c'',
          ArticleEntry 2 ''D'' (Some 6) ''Risk'' [''point''] ''why'' None ''http://c'',
          Footer 3]"
proof -
  have tagged: "\<forall>a \<in> set ex_tagged. tags a \<noteq> None \<and> summary a \<noteq> None"
    by (simp add: ex_tagged_def ex_full_def)
  then have all: "list_all (\<lambda>a. tags a \<noteq> None \<and> summary a \<noteq> None) ex_tagged"
    by (simp add: list_all_iff)
  note r = renderer_total_on_tagged_records [OF tagged, of "''Monday''" 3]
  from r obtain doc where "formatEmailBrief ''Monday'' 3 ex_tagged = Inr doc" by blast
  then have first: "\<not> isl (formatEmailBrief ''Monday'' 3 ex_tagged)" by simp
  from r obtain doc' where "formatEmailBrief_part000 ''Monday'' ex_tagged = Inr doc'" by blast
  then have second: "\<not> isl (formatEmailBrief_part000 ''Monday'' ex_tagged)" by simp
  show ?thesis using all first second ex_tagged_brief by simp
qed

lemma ex_batchAt: "batchAt ex_articles 0 = ex_articles"
  by (simp add: batchAt_def batchSize_def ex_articles_def)

lemma ex_length: "length ex_articles = 3"
  by (simp add: ex_articles_def)

lemma ex_nonempty: "ex_articles \<noteq> []"
  by (simp add: ex_articles_def)

lemma ex_bare_digest:
  "analyzeWithClaude (CONFIG None) (ex_create ex_bare_response) ex_JSON_parse ex_articles =
     ([ex_rec 7 None None], [LogBatch 1 1 3])"
proof -
  have kept: "isRelevant (CONFIG None) (ex_rec 7 None None)"
    by (simp add: isRelevant_def js_truthy_def js_ge_def CONFIG_def ex_rec_def)
  have batch: "batchResult (CONFIG None) (ex_create ex_bare_response) ex_JSON_parse ex_articles 0 =
      ([ex_rec 7 None None], [LogBatch 1 1 3])"
    by (simp add: batchResult_def ex_batchAt ex_length analyzeBatch_def ex_create_def
        responseText_def ex_bare_match ex_parse_bare_block kept)
  have "analyzeLoop (CONFIG None) (ex_create ex_bare_response) ex_JSON_parse ex_articles 0 ([], []) =
      ([ex_rec 7 None None], [LogBatch 1 1 3])"
    by (simp add: analyzeLoop_all ex_batchCount batch)
  then show ?thesis
    by (simp add: analyzeWithClaude_def sortAndSlice_def js_sort_def CONFIG_def)
qed

lemma ex_bare_brief: "formatEmailBrief date sources [ex_rec 7 None None] = Inl TypeError"
  by (simp add: formatEmailBrief_def tagsInclude_def ex_rec_def)

text \<open>
  C7 as stated fails: on a record without \<open>tags\<close> both renderers throw a TypeError.
  Such a record reaches the renderer, since the analyzer keeps the judge's record
  \<^verbatim>\<open>{"score":7}\<close> as it is; the run then ends in its \<^verbatim>\<open>catch\<close>, with no request
  to the mail transport.
\<close>

theorem missing_tags_counterexample:
  "formatEmailBrief ''Monday'' 3 [ex_rec 7 None None] = Inl TypeError
   \<and> formatEmailBrief_part000 ''Monday'' [ex_rec 7 None None] = Inl TypeError
   \<and> fst (analyzeWithClaude (CONFIG None) (ex_create ex_bare_response) ex_JSON_parse ex_articles) =
       [ex_rec 7 None None]
   \<and> processAndSendBrief (CONFIG None) ex_now ''Monday'' ''1-1-2026'' ex_feeds ex_parseURL
         (ex_create ex_bare_response) ex_JSON_parse ex_send =
       \<lparr> mailRequests = [],
         run_log = [LogStarting, LogFeedOk 1 2, LogFeedError 2 (Rejected ''timeout''),
                    LogFeedOk 3 1, LogTotalUnique 3, LogBatch 1 1 3, LogSelected 1,
                    LogProcessError TypeError] \<rparr>"
proof -
  have first: "formatEmailBrief ''Monday'' 3 [ex_rec 7 None None] = Inl TypeError"
    by (rule ex_bare_brief)
  have second: "formatEmailBrief_part000 ''Monday'' [ex_rec 7 None None] = Inl TypeError"
    by (simp add: formatEmailBrief_part000_def tagsInclude_def ex_rec_def)
  have digest: "fst (analyzeWithClaude (CONFIG None) (ex_create ex_bare_response) ex_JSON_parse
      ex_articles) = [ex_rec 7 None None]"
    by (simp add: ex_bare_digest)
  have fetched: "fetchRecentArticles (CONFIG None) ex_now ex_parseURL ex_feeds =
      (ex_articles, [LogFeedOk 1 2, LogFeedError 2 (Rejected ''timeout''), LogFeedOk 3 1,
                     LogTotalUnique 3])"
    using ex_fetch ex_fetch_log by (simp add: ex_feeds_def ex_articles_def prod_eq_iff)
  have run: "processAndSendBrief (CONFIG None) ex_now ''Monday'' ''1-1-2026'' ex_feeds ex_parseURL
         (ex_create ex_bare_response) ex_JSON_parse ex_send =
       \<lparr> mailRequests = [],
         run_log = [LogStarting, LogFeedOk 1 2, LogFeedError 2 (Rejected ''timeout''),
                    LogFeedOk 3 1, LogTotalUnique 3, LogBatch 1 1 3, LogSelected 1,
                    LogProcessError TypeError] \<rparr>"
    unfolding processAndSendBrief_def fetched
    by (simp add: ex_bare_digest ex_nonempty ex_bare_brief)
  show ?thesis using first second digest run by simp
qed

subsection \<open>Nothing to report\<close>

text \<open>
  C8.  When the fetch returns no article, and when it returns some but the analyzer
  selects none, \<open>processAndSendBrief\<close> makes no request to the mail transport and its
  last console line is the notice of that outcome; the authorized \<open>GET\<close> of part\_000
  answers 200 with the message of that outcome and a count of 0, and makes no request
  either.
\<close>

theorem nothing_to_report:
  "(fst (fetchRecentArticles cfg now parseURL RSS_FEEDS) = [] \<longrightarrow>
      processAndSendBrief cfg now date shortDate RSS_FEEDS parseURL create JSON_parse send =
        \<lparr> mailRequests = [],
          run_log = [LogStarting] @ snd (fetchRecentArticles cfg now parseURL RSS_FEEDS)
                    @ [LogNoArticles] \<rparr>)
   \<and> (fst (fetchRecentArticles cfg now parseURL RSS_FEEDS) \<noteq> []
       \<and> fst (analyzeWithClaude cfg create JSON_parse
                (fst (fetchRecentArticles cfg now parseURL RSS_FEEDS))) = [] \<longrightarrow>
      processAndSendBrief cfg now date shortDate RSS_FEEDS parseURL create JSON_parse send =
        \<lparr> mailRequests = [],
          run_log = [LogStarting] @ snd (fetchRecentArticles cfg now parseURL RSS_FEEDS)
                    @ snd (analyzeWithClaude cfg create JSON_parse
                             (fst (fetchRecentArticles cfg now parseURL RSS_FEEDS)))
                    @ [LogSelected 0, LogNoRelevant] \<rparr>)
   \<and> (authorization = Some (''Bearer '' @ str CRON_SECRET)
       \<and> fetchRecentArticles_part000 cfg now parseURL RSS_FEEDS = [] \<longrightarrow>
      GET_part000 cfg now date shortDate timestamp authorization CRON_SECRET RSS_FEEDS parseURL
          create JSON_parse send =
        (JsonResponse [(''message'', JStr ''No new articles found''), (''count'', JNum 0)] 200, []))
   \<and> (authorization = Some (''Bearer '' @ str CRON_SECRET)
       \<and> fetchRecentArticles_part000 cfg now parseURL RSS_FEEDS \<noteq> []
       \<and> analyzeWithClaude_part000 cfg create JSON_parse
            (fetchRecentArticles_part000 cfg now parseURL RSS_FEEDS) = [] \<longrightarrow>
      GET_part000 cfg now date shortDate timestamp authorization CRON_SECRET RSS_FEEDS parseURL
          create JSON_parse send =
        (JsonResponse [(''message'', JStr ''No relevant articles found''), (''count'', JNum 0)] 200,
         []))"
proof -
  have none: "fst (fetchRecentArticles cfg now parseURL RSS_FEEDS) = [] \<Longrightarrow>
      processAndSendBrief cfg now date shortDate RSS_FEEDS parseURL create JSON_parse send =
        \<lparr> mailRequests = [],
          run_log = [LogStarting] @ snd (fetchRecentArticles cfg now parseURL RSS_FEEDS)
                    @ [LogNoArticles] \<rparr>"
    by (simp add: processAndSendBrief_def split_beta)
  have irrelevant: "fst (fetchRecentArticles cfg now parseURL RSS_FEEDS) \<noteq> [] \<Longrightarrow>
      fst (analyzeWithClaude cfg create JSON_parse
             (fst (fetchRecentArticles cfg now parseURL RSS_FEEDS))) = [] \<Longrightarrow>
      processAndSendBrief cfg now date shortDate RSS_FEEDS parseURL create JSON_parse send =
        \<lparr> mailRequests = [],
          run_log = [LogStarting] @ snd (fetchRecentArticles cfg now parseURL RSS_FEEDS)
                    @ snd (analyzeWithClaude cfg create JSON_parse
                             (fst (fetchRecentArticles cfg now parseURL RSS_FEEDS)))
                    @ [LogSelected 0, LogNoRelevant] \<rparr>"
    by (simp add: processAndSendBrief_def split_beta Let_def)
  have none0: "authorization = Some (''Bearer '' @ str CRON_SECRET) \<Longrightarrow>
      fetchRecentArticles_part000 cfg now parseURL RSS_FEEDS = [] \<Longrightarrow>
      GET_part000 cfg now date shortDate timestamp authorization CRON_SECRET RSS_FEEDS parseURL
          create JSON_parse send =
        (JsonResponse [(''message'', JStr ''No new articles found''), (''count'', JNum 0)] 200, [])"
    by (simp add: GET_part000_def)
  have irrelevant0: "authorization = Some (''Bearer '' @ str CRON_SECRET) \<Longrightarrow>
      fetchRecentArticles_part000 cfg now parseURL RSS_FEEDS \<noteq> [] \<Longrightarrow>
      analyzeWithClaude_part000 cfg create JSON_parse
            (fetchRecentArticles_part000 cfg now parseURL RSS_FEEDS) = [] \<Longrightarrow>
      GET_part000 cfg now date shortDate timestamp authorization CRON_SECRET RSS_FEEDS parseURL
          create JSON_parse send =
        (JsonResponse [(''message'', JStr ''No relevant articles found''), (''count'', JNum 0)] 200,
         [])"
    by (simp add: GET_part000_def Let_def)
  show ?thesis using none irrelevant none0 irrelevant0 by blast
qed

lemma ex_down_fetch:
  "fetchRecentArticles (CONFIG None) ex_now ex_down ex_feeds =
     ([], [LogFeedError 1 (Rejected ''down''), LogFeedError 2 (Rejected ''down''),
           LogFeedError 3 (Rejected ''down''), LogTotalUnique 0])"
  by (simp add: fetchRecentArticles_def fetchFeed_def ex_down_def ex_feeds_def)

lemma ex_down_fetch_part000:
  "fetchRecentArticles_part000 (CONFIG_part000 None) ex_now ex_down ex_feeds = []"
  by (simp add: fetchRecentArticles_part000_def ex_down_def ex_feeds_def)

lemma ex_fetch_all:
  "fetchRecentArticles (CONFIG None) ex_now ex_parseURL ex_feeds =
     (ex_articles, [LogFeedOk 1 2, LogFeedError 2 (Rejected ''timeout''), LogFeedOk 3 1,
                    LogTotalUnique 3])"
  using ex_fetch ex_fetch_log by (simp add: ex_feeds_def ex_articles_def prod_eq_iff)

lemma ex_nothing_match: "jsonMatch ex_nothing = None"
  by (simp add: jsonMatch_def ex_nothing_def)

lemma ex_nothing_loop:
  "analyzeLoop cfg (ex_create ex_nothing) ex_JSON_parse ex_articles 0 ([], []) = ([], [])"
  by (simp add: analyzeLoop_all ex_batchCount batchResult_def analyzeBatch_def ex_create_def
      responseText_def ex_nothing_match)

lemma ex_nothing_digest:
  "analyzeWithClaude cfg (ex_create ex_nothing) ex_JSON_parse ex_articles = ([], [])"
  by (simp add: analyzeWithClaude_def ex_nothing_loop sortAndSlice_def js_sort_def)

lemma ex_fetch_part000:
  "fetchRecentArticles_part000 (CONFIG_part000 None) ex_now ex_parseURL ex_feeds =
     [ex_article ''A'' ''http://a'' (Time 199999999), ex_article ''B'' ''http://b'' (Time 200000000),
      ex_article ''A again'' ''http://a'' (Time 200000000)]"
  by (simp add: fetchRecentArticles_part000_def ex_feeds_def ex_parseURL_def ex_item_def
      windowSliceMap_def isRecent_def itemDate_def cutoffDate_def toArticle_def ex_now_def
      ex_article_def CONFIG_part000_def js_or_def)

lemma ex_nothing_part000:
  "analyzeWithClaude_part000 cfg (ex_create ex_nothing) ex_JSON_parse
     [ex_article ''A'' ''http://a'' (Time 199999999), ex_article ''B'' ''http://b'' (Time 200000000),
      ex_article ''A again'' ''http://a'' (Time 200000000)] = []"
proof -
  have "batchCount [ex_article ''A'' ''http://a'' (Time 199999999),
      ex_article ''B'' ''http://b'' (Time 200000000),
      ex_article ''A again'' ''http://a'' (Time 200000000)] = 1"
    by (simp add: batchCount_def batchSize_def)
  then show ?thesis
    by (simp add: analyzeWithClaude_part000_def analyzeLoop_all batchResult_def analyzeBatch_def
        ex_create_def responseText_def ex_nothing_match sortAndSlice_def js_sort_def)
qed

theorem nothing_to_report_witness:
  "fst (fetchRecentArticles (CONFIG None) ex_now ex_down ex_feeds) = []
   \<and> processAndSendBrief (CONFIG None) ex_now ''Monday'' ''1-1-2026'' ex_feeds ex_down
         (ex_create ex_response) ex_JSON_parse ex_send =
       \<lparr> mailRequests = [],
         run_log = [LogStarting, LogFeedError 1 (Rejected ''down''),
                    LogFeedError 2 (Rejected ''down''), LogFeedError 3 (Rejected ''down''),
                    LogTotalUnique 0, LogNoArticles] \<rparr>
   \<and> fst (fetchRecentArticles (CONFIG None) ex_now ex_parseURL ex_feeds) \<noteq> []
   \<and> fst (analyzeWithClaude (CONFIG None) (ex_create ex_nothing) ex_JSON_parse
           (fst (fetchRecentArticles (CONFIG None) ex_now ex_parseURL ex_feeds))) = []
   \<and> processAndSendBrief (CONFIG None) ex_now ''Monday'' ''1-1-2026'' ex_feeds ex_parseURL
         (ex_create ex_nothing) ex_JSON_parse ex_send =
       \<lparr> mailRequests = [],
         run_log = [LogStarting, LogFeedOk 1 2, LogFeedError 2 (Rejected ''timeout''),
                    LogFeedOk 3 1, LogTotalUnique 3, LogSelected 0, LogNoRelevant] \<rparr>
   \<and> GET_part000 (CONFIG_part000 None) ex_now ''Monday'' ''1-1-2026'' ''2026-01-01T06:00:00Z''
         (Some ''Bearer s3cret'') (Some ''s3cret'') ex_feeds ex_down (ex_create ex_response)
         ex_JSON_parse ex_send =
       (JsonResponse [(''message'', JStr ''No new articles found''), (''count'', JNum 0)] 200, [])
   \<and> GET_part000 (CONFIG_part000 None) ex_now ''Monday'' ''1-1-2026'' ''2026-01-01T06:00:00Z''
         (Some ''Bearer s3cret'') (Some ''s3cret'') ex_feeds ex_parseURL (ex_create ex_nothing)
         ex_JSON_parse ex_send =
       (JsonResponse [(''message'', JStr ''No relevant articles found''), (''count'', JNum 0)] 200,
        [])"
proof -
  have auth: "Some ''Bearer s3cret'' = Some (''Bearer '' @ str (Some ''s3cret''))"
    by (simp add: str_def)
  have f1: "fst (fetchRecentArticles (CONFIG None) ex_now ex_down ex_feeds) = []"
    by (simp add: ex_down_fetch)
  have f2: "fst (fetchRecentArticles (CONFIG None) ex_now ex_parseURL ex_feeds) \<noteq> []"
    by (simp add: ex_fetch_all ex_nonempty)
  have a2: "fst (analyzeWithClaude (CONFIG None) (ex_create ex_nothing) ex_JSON_parse
           (fst (fetchRecentArticles (CONFIG None) ex_now ex_parseURL ex_feeds))) = []"
    by (simp add: ex_fetch_all ex_nothing_digest)
  have f3: "fetchRecentArticles_part000 (CONFIG_part000 None) ex_now ex_down ex_feeds = []"
    by (rule ex_down_fetch_part000)
  have f4: "fetchRecentArticles_part000 (CONFIG_part000 None) ex_now ex_parseURL ex_feeds \<noteq> []"
    by (simp add: ex_fetch_part000)
  have a4: "analyzeWithClaude_part000 (CONFIG_part000 None) (ex_create ex_nothing) ex_JSON_parse
      (fetchRecentArticles_part000 (CONFIG_part000 None) ex_now ex_parseURL ex_feeds) = []"
    by (simp add: ex_fetch_part000 ex_nothing_part000)
  have r1: "processAndSendBrief (CONFIG None) ex_now ''Monday'' ''1-1-2026'' ex_feeds ex_down
         (ex_create ex_response) ex_JSON_parse ex_send =
       \<lparr> mailRequests = [],
         run_log = [LogStarting, LogFeedError 1 (Rejected ''down''),
                    LogFeedError 2 (Rejected ''down''), LogFeedError 3 (Rejected ''down''),
                    LogTotalUnique 0, LogNoArticles] \<rparr>"
    using nothing_to_report [of "CONFIG None" ex_now ex_down ex_feeds "''Monday''" "''1-1-2026''"
        "ex_create ex_response" ex_JSON_parse ex_send] f1
    by (simp add: ex_down_fetch)
  have r2: "processAndSendBrief (CONFIG None) ex_now ''Monday'' ''1-1-2026'' ex_feeds ex_parseURL
         (ex_create ex_nothing) ex_JSON_parse ex_send =
       \<lparr> mailRequests = [],
         run_log = [LogStarting, LogFeedOk 1 2, LogFeedError 2 (Rejected ''timeout''),
                    LogFeedOk 3 1, LogTotalUnique 3, LogSelected 0, LogNoRelevant] \<rparr>"
    using nothing_to_report [of "CONFIG None" ex_now ex_parseURL ex_feeds "''Monday''"
        "''1-1-2026''" "ex_create ex_nothing" ex_JSON_parse ex_send] f2 a2
    by (simp add: ex_fetch_all ex_nothing_digest)
  have r3: "GET_part000 (CONFIG_part000 None) ex_now ''Monday'' ''1-1-2026'' ''2026-01-01T06:00:00Z''
         (Some ''Bearer s3cret'') (Some ''s3cret'') ex_feeds ex_down (ex_create ex_response)
         ex_JSON_parse ex_send =
       (JsonResponse [(''message'', JStr ''No new articles found''), (''count'', JNum 0)] 200, [])"
    using nothing_to_report [where cfg = "CONFIG_part000 None" and now = ex_now
        and parseURL = ex_down and RSS_FEEDS = ex_feeds
        and authorization = "Some ''Bearer s3cret''" and CRON_SECRET = "Some ''s3cret''"] auth f3
    by blast
  have r4: "GET_part000 (CONFIG_part000 None) ex_now ''Monday'' ''1-1-2026'' ''2026-01-01T06:00:00Z''
         (Some ''Bearer s3cret'') (Some ''s3cret'') ex_feeds ex_parseURL (ex_create ex_nothing)
         ex_JSON_parse ex_send =
       (JsonResponse [(''message'', JStr ''No relevant articles found''), (''count'', JNum 0)] 200,
        [])"
    using nothing_to_report [where cfg = "CONFIG_part000 None" and now = ex_now
        and parseURL = ex_parseURL and RSS_FEEDS = ex_feeds
        and create = "ex_create ex_nothing" and JSON_parse = ex_JSON_parse
        and authorization = "Some ''Bearer s3cret''" and CRON_SECRET = "Some ''s3cret''"]
      auth f4 a4
    by blast
  show ?thesis using f1 r1 f2 a2 r2 r3 r4 by simp
qed

end
